theory Spec2Isabelle
  imports Complex_Main "HOL-Library.Char_ord" "HOL-Library.List_Lexorder"
begin

section \<open>GoDiagram (sltxt2svg.ts): Sensei's Library diagram text to SVG\<close>

text \<open>
  The class \<^verbatim>\<open>GoDiagram\<close> of \<^verbatim>\<open>src/sltxt2svg.ts\<close> is embedded function by function.
  JavaScript strings are modelled as \<^typ>\<open>string\<close>: one \<^typ>\<open>char\<close> per UTF-16 code unit,
  for code units below 256. JavaScript numbers are modelled exactly, as \<^typ>\<open>int\<close> where the
  code only ever holds integers and as \<^typ>\<open>rat\<close> where it halves (\<^verbatim>\<open>radius\<close>, pixel
  positions); the font metrics \<^verbatim>\<open>fontSize.h\<close> and \<^verbatim>\<open>fontSize.w\<close> are integers, as in the
  only call of the constructor, so every number but the square root of the diameter is a
  multiple of 1/4 and exact as a double; the square root is rounded as doubles are. \<^verbatim>\<open>NaN\<close> and \<^verbatim>\<open>undefined\<close> are \<^const>\<open>None\<close> of an option type.
  A thrown \<^verbatim>\<open>TypeError\<close> is the left injection of a sum.
\<close>

subsection \<open>Strings and regular expressions of the source\<close>

text \<open>White space of \<^verbatim>\<open>String.prototype.trim\<close> and of the regular expression class \<^verbatim>\<open>\s\<close>.\<close>

definition isWhiteSpace :: "char \<Rightarrow> bool" where
  "isWhiteSpace c \<longleftrightarrow>
     c = CHR 0x09 \<or> c = CHR 0x0A \<or> c = CHR 0x0B \<or> c = CHR 0x0C \<or> c = CHR 0x0D \<or>
     c = CHR 0x20 \<or> c = CHR 0xA0"

text \<open>The characters that the regular expression \<^verbatim>\<open>.\<close> does not match.\<close>

definition isLineTerminator :: "char \<Rightarrow> bool" where
  "isLineTerminator c \<longleftrightarrow> c = CHR 0x0A \<or> c = CHR 0x0D"

definition notLineTerminator :: "char \<Rightarrow> bool" where
  "notLineTerminator c \<longleftrightarrow> c \<noteq> CHR 0x0A \<and> c \<noteq> CHR 0x0D"

definition isDigit :: "char \<Rightarrow> bool" where
  "isDigit c \<longleftrightarrow> CHR ''0'' \<le> c \<and> c \<le> CHR ''9''"

definition trim :: "string \<Rightarrow> string" where
  "trim s = rev (dropWhile isWhiteSpace (rev (dropWhile isWhiteSpace s)))"

text \<open>\<^verbatim>\<open>s.split(sep)\<close> for a separator of one character; \<^verbatim>\<open>"".split(sep)\<close> is \<^verbatim>\<open>[""]\<close>.\<close>

fun split :: "char \<Rightarrow> string \<Rightarrow> string list" where
  "split sep [] = [[]]"
| "split sep (c # cs) =
     (if c = sep then [] # split sep cs
      else (case split sep cs of [] \<Rightarrow> [[c]] | r # rs \<Rightarrow> (c # r) # rs))"

text \<open>Index of the last occurrence of a character, as the greedy \<^verbatim>\<open>(.*)\<close> finds it.\<close>

fun lastIndex :: "char \<Rightarrow> string \<Rightarrow> nat option" where
  "lastIndex a [] = None"
| "lastIndex a (c # cs) =
     (case lastIndex a cs of Some i \<Rightarrow> Some (Suc i)
      | None \<Rightarrow> (if c = a then Some 0 else None))"

subsubsection \<open>\<^verbatim>\<open>parseInt\<close>\<close>

definition digitValue :: "char \<Rightarrow> int" where
  "digitValue c =
     (if CHR ''0'' \<le> c \<and> c \<le> CHR ''9'' then int (of_char c) - 48
      else if CHR ''a'' \<le> c \<and> c \<le> CHR ''f'' then int (of_char c) - 87
      else int (of_char c) - 55)"

definition isHexDigit :: "char \<Rightarrow> bool" where
  "isHexDigit c \<longleftrightarrow>
     (CHR ''0'' \<le> c \<and> c \<le> CHR ''9'') \<or> (CHR ''a'' \<le> c \<and> c \<le> CHR ''f'') \<or>
     (CHR ''A'' \<le> c \<and> c \<le> CHR ''F'')"

definition radixValue :: "int \<Rightarrow> string \<Rightarrow> int" where
  "radixValue r ds = foldl (\<lambda>acc c. acc * r + digitValue c) 0 ds"

definition stripSign :: "string \<Rightarrow> int \<times> string" where
  "stripSign t =
     (case t of [] \<Rightarrow> (1, t)
      | c # cs \<Rightarrow> if c = CHR ''-'' then (- 1, cs) else if c = CHR ''+'' then (1, cs) else (1, t))"

definition stripHexPrefix :: "string \<Rightarrow> bool \<times> string" where
  "stripHexPrefix u =
     (case u of c # x # cs \<Rightarrow>
        if c = CHR ''0'' \<and> (x = CHR ''x'' \<or> x = CHR ''X'') then (True, cs) else (False, u)
      | _ \<Rightarrow> (False, u))"

text \<open>
  \<^verbatim>\<open>parseInt(s)\<close> with no radix: leading white space, a sign, the prefix \<^verbatim>\<open>0x\<close>, then the
  longest run of digits; \<^verbatim>\<open>NaN\<close> (here \<^const>\<open>None\<close>) when that run is empty. The result is the
  mathematical integer; the code only asks for its remainder by 2 and compares it
  with 10 and 0 (see \<open>rem2\<close> below).
\<close>

definition parseInt :: "string \<Rightarrow> int option" where
  "parseInt s =
     (let (sign, u) = stripSign (dropWhile isWhiteSpace s);
          (hex, v) = stripHexPrefix u;
          ds = (if hex then takeWhile isHexDigit v else takeWhile isDigit v)
      in if ds = [] then None
         else Some (sign * radixValue (if hex then 16 else 10) ds))"

text \<open>\<^verbatim>\<open>parseInt(undefined)\<close> parses the text \<^verbatim>\<open>undefined\<close>.\<close>

definition toStr :: "string option \<Rightarrow> string" where
  "toStr v = (case v of None \<Rightarrow> ''undefined'' | Some s \<Rightarrow> s)"

definition parseIntOf :: "string option \<Rightarrow> int option" where
  "parseIntOf v = parseInt (toStr v)"

text \<open>
  \<^verbatim>\<open>parseInt(curchar) % 2\<close> on the double that \<^verbatim>\<open>parseInt\<close> returns: the remainder has
  the sign of the dividend; an integer of magnitude \<open>2^53\<close> or more is rounded to an even
  double, and one that rounds to \<^verbatim>\<open>Infinity\<close> has remainder \<^verbatim>\<open>NaN\<close>.
\<close>

definition rem2 :: "int option \<Rightarrow> int option" where
  "rem2 v =
     (case v of None \<Rightarrow> None
      | Some n \<Rightarrow>
          if 2 ^ 1024 - 2 ^ 970 \<le> \<bar>n\<bar> then None
          else if 2 ^ 53 \<le> \<bar>n\<bar> then Some 0
          else Some (sgn n * (\<bar>n\<bar> mod 2)))"

subsubsection \<open>The three regular expressions of the constructor\<close>

text \<open>
  \<^verbatim>\<open>/^\$\$([WB])?(c)?(d+)?(.*)/\<close> on the trimmed first line. The groups are greedy and the last
  one matches anything, so the match succeeds exactly when the line starts with \<^verbatim>\<open>$$\<close>.
  The third group is \<^verbatim>\<open>(d+)\<close>: a run of the letter \<^verbatim>\<open>d\<close>.
\<close>

definition optChar :: "(char \<Rightarrow> bool) \<Rightarrow> string \<Rightarrow> string option \<times> string" where
  "optChar P r = (case r of [] \<Rightarrow> (None, r) | c # cs \<Rightarrow> if P c then (Some [c], cs) else (None, r))"

definition matchHeader ::
  "string \<Rightarrow> (string option \<times> string option \<times> string option \<times> string) option" where
  "matchHeader line =
     (case line of
        a # b # r0 \<Rightarrow>
          if a = CHR ''$'' \<and> b = CHR ''$'' then
            (let (m1, r1) = optChar (\<lambda>c. c = CHR ''W'' \<or> c = CHR ''B'') r0;
                 (m2, r2) = optChar (\<lambda>c. c = CHR ''c'') r1;
                 ds = takeWhile (\<lambda>c. c = CHR ''d'') r2;
                 m3 = (if ds = [] then None else Some ds);
                 r3 = dropWhile (\<lambda>c. c = CHR ''d'') r2
             in Some (m1, m2, m3, takeWhile notLineTerminator r3))
          else None
      | _ \<Rightarrow> None)"

text \<open>
  \<^verbatim>\<open>/^\$\$\s*([^[\s].*)/\<close> on a trimmed line: after \<^verbatim>\<open>$$\<close> and all the white space, one
  character that is not \<^verbatim>\<open>[\<close>, then the rest up to a line terminator.
\<close>

definition matchBody :: "string \<Rightarrow> string option" where
  "matchBody line =
     (case line of
        a # b # r \<Rightarrow>
          if a = CHR ''$'' \<and> b = CHR ''$'' then
            (case dropWhile isWhiteSpace r of
               [] \<Rightarrow> None
             | c # cs \<Rightarrow> if c = CHR ''['' then None else Some (c # takeWhile notLineTerminator cs))
          else None
      | _ \<Rightarrow> None)"

text \<open>
  \<^verbatim>\<open>/^\$\$\s*\[(.*)\|(.*)\]/\<close> on the line as it is: both groups are greedy, so the second ends
  at the last \<^verbatim>\<open>]\<close> before a line terminator and the first at the last \<^verbatim>\<open>|\<close> before that.
\<close>

definition matchLink :: "string \<Rightarrow> (string \<times> string) option" where
  "matchLink line =
     (case line of
        a # b # r \<Rightarrow>
          if a = CHR ''$'' \<and> b = CHR ''$'' then
            (case dropWhile isWhiteSpace r of
               [] \<Rightarrow> None
             | c # cs \<Rightarrow>
                 if c = CHR ''['' then
                   (let seg = takeWhile notLineTerminator cs in
                    case lastIndex CHR '']'' seg of
                      None \<Rightarrow> None
                    | Some j \<Rightarrow>
                        (case lastIndex CHR ''|'' (take j seg) of
                           None \<Rightarrow> None
                         | Some i \<Rightarrow> Some (take i seg, drop (Suc i) (take j seg))))
                 else None)
          else None
      | _ \<Rightarrow> None)"

text \<open>\<^verbatim>\<open>/^[a-z0-9WB@#CS]$/\<close>: exactly one character of the class.\<close>

definition isAnchorChar :: "char \<Rightarrow> bool" where
  "isAnchorChar c \<longleftrightarrow>
     (CHR ''a'' \<le> c \<and> c \<le> CHR ''z'') \<or> (CHR ''0'' \<le> c \<and> c \<le> CHR ''9'') \<or>
     c = CHR ''W'' \<or> c = CHR ''B'' \<or> c = CHR ''@'' \<or> c = CHR ''#'' \<or> c = CHR ''C'' \<or>
     c = CHR ''S''"

definition matchAnchor :: "string \<Rightarrow> bool" where
  "matchAnchor anchor = (case anchor of [c] \<Rightarrow> isAnchorChar c | _ \<Rightarrow> False)"

subsection \<open>The instance\<close>

datatype error = TypeError

record FontSize =
  h :: int
  w :: int

text \<open>
  A row of \<^verbatim>\<open>this.rows\<close> is a string (a compact row: indexing gives one character) or
  an array of strings (a row split on spaces).
\<close>

datatype row = Compact string | Tokens "string list"

text \<open>
  The fields declared with \<^verbatim>\<open>!\<close> are assigned only after the header has matched.
  They are grouped in one record, absent (\<^const>\<open>None\<close>) in an instance whose constructor
  returned at the failed header match. \<^verbatim>\<open>this.diagram\<close> is \<^verbatim>\<open>null\<close> in such an instance
  and is a field of this record otherwise (\<^const>\<open>None\<close> is \<^verbatim>\<open>null\<close>). The border flags are
  the numbers 0 and 1.
\<close>

record Parsed =
  diagram :: "string option"
  firstColor :: string
  coordinates :: bool
  boardSize :: "int option"
  title :: string
  rows :: "row list"
  startrow :: int
  startcol :: int
  endrow :: int
  endcol :: int
  topborder :: nat
  bottomborder :: nat
  leftborder :: nat
  rightborder :: nat
  radius :: rat
  imageWidth :: int
  imageHeight :: int
  offset_x :: int
  offset_y :: int

record GoDiagram =
  fontSize :: FontSize
  inputDiagram :: string
  failureErrorMessage :: string
  content :: "string list"
  linkmap :: "(string \<times> string) list"
  parsed :: "Parsed option"

text \<open>\<^verbatim>\<open>this.diagram\<close> of an instance.\<close>

definition diagramOf :: "GoDiagram \<Rightarrow> string option" where
  "diagramOf d = (case parsed d of None \<Rightarrow> None | Some p \<Rightarrow> diagram p)"

subsection \<open>Grid normalisation (\<^verbatim>\<open>initBoardAndDimensions\<close>, first part)\<close>

definition replaceBorderChars :: "string \<Rightarrow> string" where
  "replaceBorderChars s =
     map (\<lambda>c. if c = CHR ''-'' \<or> c = CHR ''|'' \<or> c = CHR ''+'' then CHR ''%'' else c) s"

definition removeChars :: "string \<Rightarrow> string" where
  "removeChars s = filter (\<lambda>c. c \<noteq> CHR 0x09 \<and> c \<noteq> CHR 0x0D \<and> c \<noteq> CHR ''$'') s"

text \<open>\<^verbatim>\<open>diag.replace(/\n+/g, " \n")\<close>: every maximal run of newlines becomes a space and one newline.\<close>

function collapseNewlines :: "string \<Rightarrow> string" where
  "collapseNewlines [] = []"
| "collapseNewlines (c # cs) =
     (if c = CHR 0x0A then CHR '' '' # CHR 0x0A # collapseNewlines (dropWhile (\<lambda>x. x = CHR 0x0A) cs)
      else c # collapseNewlines cs)"
  by pat_completeness auto
termination
  by (relation "measure length") (auto simp: less_Suc_eq_le length_dropWhile_le)

text \<open>
  The test of the loop over \<^verbatim>\<open>tempRows\<close>: a row with a space, a digit and no \<^verbatim>\<open>{\<close> is split on
  spaces; any other row loses its spaces and stays a string. (\<^verbatim>\<open>contains\<close> is the method that
  the host application adds to strings, the same as \<^verbatim>\<open>includes\<close>.)
\<close>

definition isNonCompact :: "string \<Rightarrow> bool" where
  "isNonCompact r \<longleftrightarrow> CHR '' '' \<in> set r \<and> list_ex isDigit r \<and> CHR ''{'' \<notin> set r"

definition classifyRow :: "string \<Rightarrow> row" where
  "classifyRow r =
     (if isNonCompact r then Tokens (split CHR '' '' r)
      else Compact (filter (\<lambda>c. c \<noteq> CHR '' '') r))"

definition normalize :: "string \<Rightarrow> row list" where
  "normalize diag =
     map classifyRow (split CHR 0x0A (collapseNewlines (removeChars (replaceBorderChars diag))))"

subsection \<open>Border detection (\<^verbatim>\<open>initBoardAndDimensions\<close>, second part)\<close>

text \<open>\<^verbatim>\<open>row[i]\<close> and \<^verbatim>\<open>row.length\<close>: an index out of range reads \<^verbatim>\<open>undefined\<close>.\<close>

definition rowAt :: "row \<Rightarrow> int \<Rightarrow> string option" where
  "rowAt r i =
     (case r of
        Compact s \<Rightarrow> if 0 \<le> i \<and> i < int (length s) then Some [s ! nat i] else None
      | Tokens ts \<Rightarrow> if 0 \<le> i \<and> i < int (length ts) then Some (ts ! nat i) else None)"

definition rowLength :: "row \<Rightarrow> int" where
  "rowLength r = (case r of Compact s \<Rightarrow> int (length s) | Tokens ts \<Rightarrow> int (length ts))"

text \<open>
  \<^verbatim>\<open>this.rows[y]\<close> where the code indexes the result: on \<^verbatim>\<open>undefined\<close> (no such row) the
  indexing throws a \<^verbatim>\<open>TypeError\<close>.
\<close>

definition getRow :: "row list \<Rightarrow> int \<Rightarrow> error + row" where
  "getRow rs y = (if 0 \<le> y \<and> y < int (length rs) then Inr (rs ! nat y) else Inl TypeError)"

definition isBorder :: "string option \<Rightarrow> bool" where
  "isBorder t \<longleftrightarrow> t = Some ''%''"

record Borders =
  b_startrow :: int
  b_startcol :: int
  b_endrow :: int
  b_endcol :: int
  b_topborder :: nat
  b_bottomborder :: nat
  b_leftborder :: nat
  b_rightborder :: nat

definition findBorders :: "row list \<Rightarrow> error + Borders" where
  "findBorders rs =
     (let startrow0 = 0; startcol0 = 0; endrow0 = int (length rs) - 1 in
      (case getRow rs 0 of
         Inl e \<Rightarrow> Inl e
       | Inr rTop \<Rightarrow>
      (let (startrow1, top) =
             (if isBorder (rowAt rTop 1) then (startrow0 + 1, 1) else (startrow0, 0)) in
      (case getRow rs endrow0 of
         Inl e \<Rightarrow> Inl e
       | Inr rBottom \<Rightarrow>
      (let (endrow1, bottom) =
             (if isBorder (rowAt rBottom 1) then (endrow0 - 1, 1) else (endrow0, 0)) in
      (case getRow rs startrow1 of
         Inl e \<Rightarrow> Inl e
       | Inr rStart \<Rightarrow>
      (let (startcol1, left) =
             (if isBorder (rowAt rStart 0) then (startcol0 + 1, 1) else (startcol0, 0));
           endcol0 = rowLength rStart - 2 in
      (case getRow rs endrow1 of
         Inl e \<Rightarrow> Inl e
       | Inr rEnd \<Rightarrow>
      (let (endcol1, right) =
             (if isBorder (rowAt rEnd endcol0) then (endcol0 - 1, 1) else (endcol0, 0)) in
       Inr \<lparr> b_startrow = startrow1, b_startcol = startcol1, b_endrow = endrow1,
             b_endcol = endcol1, b_topborder = top, b_bottomborder = bottom,
             b_leftborder = left, b_rightborder = right \<rparr>)))))))))"

subsection \<open>Image size (\<^verbatim>\<open>initBoardAndDimensions\<close>, third part)\<close>

text \<open>
  \<^verbatim>\<open>Math.sqrt(this.fontSize["h"] ** 2 + this.fontSize["w"] ** 2)\<close> is computed on doubles: each
  square, the sum and the root are rounded to 53 significant bits, ties to even. (A double
  that is an integer is modelled by that integer; the root by a rational.)
\<close>

function bitlen :: "int \<Rightarrow> nat" where
  "bitlen n = (if n \<le> 0 then 0 else Suc (bitlen (n div 2)))"
  by pat_completeness auto
termination
  by (relation "measure nat") auto

declare bitlen.simps [simp del]

text \<open>
  Rounding away the \<open>k\<close> lowest bits of \<open>y\<close>; \<open>sticky\<close> says that the exact value lies strictly
  between \<open>y\<close> and \<open>y + 1\<close>.
\<close>

definition roundBits :: "int \<Rightarrow> nat \<Rightarrow> bool \<Rightarrow> int" where
  "roundBits y k sticky =
     (if k = 0 then y
      else (let q = y div 2 ^ k; r = y mod 2 ^ k; half = 2 ^ (k - 1)
            in (if half < r \<or> (r = half \<and> (sticky \<or> odd q)) then q + 1 else q) * 2 ^ k))"

definition toDouble :: "int \<Rightarrow> int" where
  "toDouble n = roundBits n (bitlen n - 53) False"

text \<open>The integer square root, bit by bit from the highest.\<close>

fun isqrtFrom :: "int \<Rightarrow> int \<Rightarrow> nat \<Rightarrow> int" where
  "isqrtFrom n res 0 = (if (res + 1) * (res + 1) \<le> n then res + 1 else res)"
| "isqrtFrom n res (Suc i) =
     isqrtFrom n (if (res + 2 ^ Suc i) * (res + 2 ^ Suc i) \<le> n then res + 2 ^ Suc i else res) i"

definition isqrt :: "int \<Rightarrow> int" where
  "isqrt n = isqrtFrom n 0 (bitlen n div 2)"

text \<open>
  \<^verbatim>\<open>Math.sqrt(n)\<close>: the radicand is scaled by a power of 4 until its integer root has more
  than 53 bits, and that root is rounded to 53 bits.
\<close>

definition sqrtDouble :: "int \<Rightarrow> rat" where
  "sqrtDouble n =
     (if n \<le> 0 then 0
      else (let s = (108 - bitlen n) div 2;
                m = n * 4 ^ s;
                y = isqrt m;
                sticky = (y * y < m)
            in of_int (roundBits y (bitlen y - 53) sticky) / 2 ^ s))"

text \<open>\<^verbatim>\<open>var diameter = Math.floor(Math.sqrt(...))\<close>.\<close>

definition diameterOf :: "FontSize \<Rightarrow> int" where
  "diameterOf fs =
     \<lfloor>sqrtDouble (toDouble (toDouble (h fs * h fs) + toDouble (w fs * w fs)))\<rfloor>"

record Layout =
  l_radius :: rat
  l_imageWidth :: int
  l_imageHeight :: int
  l_offset_x :: int
  l_offset_y :: int
  l_coordinates :: bool

definition layout :: "FontSize \<Rightarrow> bool \<Rightarrow> Borders \<Rightarrow> Layout" where
  "layout fs coords b =
     (let diameter = diameterOf fs;
          radius0 = of_int diameter / 2;
          imageWidth0 = diameter * (1 + b_endcol b - b_startcol b) + 4;
          imageHeight0 = diameter * (1 + b_endrow b - b_startrow b) + 4;
          offset_x0 = 2;
          offset_y0 = 2
      in if coords then
           (if (0 < b_bottomborder b \<or> 0 < b_topborder b) \<and> (0 < b_leftborder b \<or> 0 < b_rightborder b)
            then (let x = w fs * 2 + 4; y = h fs + 2
                  in \<lparr> l_radius = radius0, l_imageWidth = imageWidth0 + x,
                       l_imageHeight = imageHeight0 + y, l_offset_x = offset_x0 + x,
                       l_offset_y = offset_y0 + y, l_coordinates = True \<rparr>)
            else \<lparr> l_radius = radius0, l_imageWidth = imageWidth0, l_imageHeight = imageHeight0,
                   l_offset_x = offset_x0, l_offset_y = offset_y0, l_coordinates = False \<rparr>)
         else \<lparr> l_radius = radius0, l_imageWidth = imageWidth0, l_imageHeight = imageHeight0,
                l_offset_x = offset_x0, l_offset_y = offset_y0, l_coordinates = False \<rparr>)"

subsection \<open>The constructor\<close>

text \<open>
  The loop over the lines after the first: a body line is appended to \<^verbatim>\<open>this.diagram\<close>, a link
  line with a one-character anchor of the class is stored in \<^verbatim>\<open>this.linkmap\<close> (an association
  list, newest first: a later line with the same anchor overwrites).
\<close>

definition readLine :: "string \<times> (string \<times> string) list \<Rightarrow> string \<Rightarrow> string \<times> (string \<times> string) list" where
  "readLine acc line =
     (let (diag, lm) = acc;
          diag1 = (case matchBody (trim line) of Some m \<Rightarrow> diag @ m @ [CHR 0x0A] | None \<Rightarrow> diag);
          lm1 = (case matchLink line of
                   Some (a, u) \<Rightarrow> if matchAnchor (trim a) then (trim a, trim u) # lm else lm
                 | None \<Rightarrow> lm)
      in (diag1, lm1))"

definition readLines :: "string list \<Rightarrow> string \<times> (string \<times> string) list" where
  "readLines ls = foldl readLine ([], []) ls"

text \<open>The check after \<^verbatim>\<open>initBoardAndDimensions\<close>: the diagram must be at least 1x1.\<close>

definition degenerate :: "FontSize \<Rightarrow> Borders \<Rightarrow> Layout \<Rightarrow> bool" where
  "degenerate fs b l \<longleftrightarrow>
     b_startrow b > b_endrow b \<or> b_startcol b > b_endcol b \<or> b_endrow b < 0 \<or> b_endcol b < 0 \<or>
     l_imageWidth l < w fs \<or> l_imageHeight l < h fs"

text \<open>
  \<^verbatim>\<open>new GoDiagram(input_diagram, fontSize)\<close>. The result is the instance, or the \<^verbatim>\<open>TypeError\<close>
  that an indexing of a missing row throws inside the constructor.
\<close>

definition newGoDiagram :: "string \<Rightarrow> FontSize \<Rightarrow> error + GoDiagram" where
  "newGoDiagram input_diagram fs =
     (let content0 = split CHR 0x0A input_diagram in
      case content0 of
        [] \<Rightarrow> Inl TypeError
      | line0 # lines \<Rightarrow>
          (case matchHeader (trim line0) of
             None \<Rightarrow>
               Inr \<lparr> fontSize = fs, inputDiagram = input_diagram,
                     failureErrorMessage = ''Parsing of ASCII diagram failed'',
                     content = content0, linkmap = [], parsed = None \<rparr>
           | Some (m1, m2, m3, m4) \<Rightarrow>
               (let firstColor0 = (if m1 = Some ''W'' then ''W'' else ''B'');
                    coordinates0 = (case m2 of None \<Rightarrow> False | Some _ \<Rightarrow> True);
                    boardSize0 = (case m3 of None \<Rightarrow> Some 19 | Some ds \<Rightarrow> parseInt ds);
                    title0 = trim m4;
                    (diagram0, linkmap0) = readLines lines;
                    rows0 = normalize diagram0
                in case findBorders rows0 of
                     Inl e \<Rightarrow> Inl e
                   | Inr b \<Rightarrow>
                       (let l = layout fs coordinates0 b
                        in Inr \<lparr> fontSize = fs, inputDiagram = input_diagram,
                                 failureErrorMessage = [],
                                 content = content0,
                                 linkmap = linkmap0,
                                 parsed = Some
                                   \<lparr> diagram = (if degenerate fs b l then None else Some diagram0),
                                     firstColor = firstColor0,
                                     coordinates = l_coordinates l,
                                     boardSize = boardSize0,
                                     title = title0,
                                     rows = rows0,
                                     startrow = b_startrow b, startcol = b_startcol b,
                                     endrow = b_endrow b, endcol = b_endcol b,
                                     topborder = b_topborder b, bottomborder = b_bottomborder b,
                                     leftborder = b_leftborder b, rightborder = b_rightborder b,
                                     radius = l_radius l,
                                     imageWidth = l_imageWidth l, imageHeight = l_imageHeight l,
                                     offset_x = l_offset_x l, offset_y = l_offset_y l \<rparr> \<rparr>))))"

text \<open>The default font size of the constructor, used by its only caller.\<close>

definition defaultFontSize :: FontSize where
  "defaultFontSize = \<lparr> h = 16, w = 8 \<rparr>"

subsection \<open>Numbers as text\<close>

text \<open>
  String concatenation of a number: decimal digits, a minus sign, and the digits after the
  point of a number with a finite decimal expansion (\<^verbatim>\<open>8.5\<close>, \<^verbatim>\<open>4.25\<close>, \<^verbatim>\<open>0.4\<close>).
\<close>

fun natStr :: "nat \<Rightarrow> string" where
  "natStr n = (if n < 10 then [char_of (48 + n)] else natStr (n div 10) @ [char_of (48 + n mod 10)])"

declare natStr.simps [simp del]

definition intStr :: "int \<Rightarrow> string" where
  "intStr i = (if i < 0 then CHR ''-'' # natStr (nat (- i)) else natStr (nat i))"

fun fracDigits :: "nat \<Rightarrow> rat \<Rightarrow> string" where
  "fracDigits 0 q = []"
| "fracDigits (Suc k) q =
     (if q = 0 then []
      else char_of (48 + nat \<lfloor>q * 10\<rfloor>) # fracDigits k (q * 10 - of_int \<lfloor>q * 10\<rfloor>))"

definition numStr :: "rat \<Rightarrow> string" where
  "numStr q =
     (let a = \<bar>q\<bar>; f = a - of_int \<lfloor>a\<rfloor>
      in (if q < 0 then ''-'' else []) @ natStr (nat \<lfloor>a\<rfloor>) @
         (if f = 0 then [] else CHR ''.'' # fracDigits 20 f))"

text \<open>A number that may be \<^verbatim>\<open>NaN\<close>.\<close>

definition nanStr :: "int option \<Rightarrow> string" where
  "nanStr v = (case v of None \<Rightarrow> ''NaN'' | Some i \<Rightarrow> intStr i)"

subsection \<open>Drawing primitives\<close>

definition black :: string where "black = ''rgb(0, 0, 0)''"
definition white :: string where "white = ''rgb(255, 255, 255)''"
definition red :: string where "red = ''rgb(255, 55, 55)''"
definition goban :: string where "goban = ''rgb(242, 176, 109)''"
definition link :: string where "link = ''rgb(202, 106, 69)''"
definition linkOpacity :: rat where "linkOpacity = 4 / 10"
definition markupClass :: string where "markupClass = ''markup''"
definition coordClass :: string where "coordClass = ''coordClass''"

definition drawStone :: "Parsed \<Rightarrow> rat \<Rightarrow> rat \<Rightarrow> string \<Rightarrow> string \<Rightarrow> string" where
  \<open>drawStone p x y colorRing colorInside =
     ''<circle cx="'' @ numStr x @ ''" cy = "'' @ numStr y @ ''" r = "'' @ numStr (radius p) @
     ''" stroke = "'' @ colorRing @ ''" fill = "'' @ colorInside @ ''" />\<newline>  ''\<close>

definition markIntersection :: "rat \<Rightarrow> rat \<Rightarrow> rat \<Rightarrow> string \<Rightarrow> string \<Rightarrow> string" where
  \<open>markIntersection x y radius0 color type =
     (if type = ''W'' \<or> type = ''B'' \<or> type = ''C'' then
        ''<circle cx="'' @ numStr x @ ''" cy = "'' @ numStr y @ ''" r = "'' @ numStr (radius0 - 3) @
        ''" stroke = "'' @ color @ ''" fill = "none"'' @ ''" />\<newline>'' @
        ''<circle cx="'' @ numStr x @ ''" cy = "'' @ numStr y @ ''" r = "'' @ numStr (radius0 - 2) @
        ''" stroke = "'' @ color @ ''" fill = "none"'' @ ''" />\<newline>''
      else if type = ''S'' \<or> type = ''@'' \<or> type = ''#'' then
        ''<rect x="'' @ numStr (x - radius0 / 2 + 1) @ ''" y = "'' @ numStr (y - radius0 / 2 + 1) @
        ''" width = "'' @ numStr 7 @ ''" height = "'' @ numStr 7 @
        ''" stroke = "'' @ color @ ''" fill = "none"'' @ ''" />\<newline>''
      else if type = '','' then
        ''<circle cx="'' @ numStr x @ ''" cy = "'' @ numStr y @ ''" r = "'' @ numStr 3 @
        ''" stroke = "'' @ color @ ''" fill = "'' @ color @ ''" />\<newline>''
      else [])\<close>

text \<open>
  \<^verbatim>\<open>getIntersectionType(x, y)\<close>: the rows \<open>y - 1\<close>, \<open>y + 1\<close> and \<open>y\<close> are indexed, so a missing
  row throws; a missing column reads \<^verbatim>\<open>undefined\<close>, which is not the border character.
\<close>

definition getIntersectionType :: "Parsed \<Rightarrow> int \<Rightarrow> int \<Rightarrow> error + string" where
  "getIntersectionType p x y =
     (let type0 = [] in
      (case getRow (rows p) (y - 1) of
         Inl e \<Rightarrow> Inl e
       | Inr rUp \<Rightarrow>
      (let type1 = (if isBorder (rowAt rUp x) then ''U'' else type0) in
      (case getRow (rows p) (y + 1) of
         Inl e \<Rightarrow> Inl e
       | Inr rDown \<Rightarrow>
      (let type2 = (if isBorder (rowAt rDown x) then type1 @ ''B'' else type1) in
      (case getRow (rows p) y of
         Inl e \<Rightarrow> Inl e
       | Inr rHere \<Rightarrow>
      (let type3 = (if isBorder (rowAt rHere (x - 1)) then type2 @ ''L'' else type2);
           type4 = (if isBorder (rowAt rHere (x + 1)) then type3 @ ''R'' else type3)
       in Inr type4)))))))"

definition drawIntersection :: "Parsed \<Rightarrow> rat \<Rightarrow> rat \<Rightarrow> string \<Rightarrow> string \<Rightarrow> string" where
  \<open>drawIntersection p x y color type =
     (if CHR ''U'' \<in> set type then []
      else ''<line x1="'' @ numStr x @ ''" y1="'' @ numStr (y - radius p) @ ''" x2="'' @ numStr x @
           ''" y2="'' @ numStr y @ ''" stroke="'' @ color @ ''" />\<newline>'') @
     (if CHR ''B'' \<in> set type then []
      else ''<line x1="'' @ numStr x @ ''" y1="'' @ numStr (y + radius p) @ ''" x2="'' @ numStr x @
           ''" y2="'' @ numStr y @ ''" stroke="'' @ color @ ''" />\<newline>  '') @
     (if CHR ''L'' \<in> set type then []
      else ''<line x1="'' @ numStr (x - radius p) @ ''" y1="'' @ numStr y @ ''" x2="'' @ numStr x @
           ''" y2="'' @ numStr y @ ''" stroke="'' @ color @ ''" />\<newline>'') @
     (if CHR ''R'' \<in> set type then []
      else ''<line x1="'' @ numStr (x + radius p) @ ''" y1="'' @ numStr y @ ''" x2="'' @ numStr x @
           ''" y2="'' @ numStr y @ ''" stroke="'' @ color @ ''" />\<newline>'')\<close>

subsection \<open>Coordinate labels (\<^verbatim>\<open>drawCoordinates\<close>)\<close>

definition coordChars :: string where
  "coordChars = ''ABCDEFGHJKLMNOPQRSTUVWXYZabcdefghjklmnopqrstuvwxyz123456789''"

text \<open>\<^verbatim>\<open>coordChars[coordX]\<close> in a concatenation: \<^verbatim>\<open>undefined\<close> out of range and for \<^verbatim>\<open>NaN\<close>.\<close>

definition coordCharAt :: "int option \<Rightarrow> string" where
  "coordCharAt v =
     (case v of None \<Rightarrow> ''undefined''
      | Some i \<Rightarrow> if 0 \<le> i \<and> i < int (length coordChars) then [coordChars ! nat i] else ''undefined'')"

definition geq10 :: "int option \<Rightarrow> bool" where
  "geq10 v = (case v of None \<Rightarrow> False | Some i \<Rightarrow> 10 \<le> i)"

definition plusInt :: "int option \<Rightarrow> int \<Rightarrow> int option" where
  "plusInt v k = (case v of None \<Rightarrow> None | Some i \<Rightarrow> Some (i + k))"

text \<open>The two loops of \<^verbatim>\<open>drawCoordinates\<close>, by the number of iterations left.\<close>

fun leftColumn :: "FontSize \<Rightarrow> rat \<Rightarrow> string \<Rightarrow> string \<Rightarrow> string \<Rightarrow> nat \<Rightarrow> rat \<Rightarrow> int option \<Rightarrow> string" where
  \<open>leftColumn fs radius0 color cls SVGTextSize 0 img_y coordY = []\<close>
| \<open>leftColumn fs radius0 color cls SVGTextSize (Suc n) img_y coordY =
     (let leftX = 6 + of_int (w fs);
          Xoffset = (if geq10 coordY then of_int (w fs) else of_int (w fs) / 2);
          svgElem = ''<text x="'' @ numStr (leftX - Xoffset) @ ''" y="'' @ numStr img_y @
                    ''" class="'' @ cls @ ''" '' @ SVGTextSize @ ''" color="'' @ color @ ''">'' @
                    nanStr coordY @ '' </text>\<newline>''
      in svgElem @
         leftColumn fs radius0 color cls SVGTextSize n (img_y + (radius0 * 2 + 1 / 2)) (plusInt coordY (- 1)))\<close>

fun topRow :: "rat \<Rightarrow> string \<Rightarrow> string \<Rightarrow> string \<Rightarrow> nat \<Rightarrow> rat \<Rightarrow> int option \<Rightarrow> string" where
  \<open>topRow radius0 color cls SVGTextSize 0 img_x coordX = []\<close>
| \<open>topRow radius0 color cls SVGTextSize (Suc n) img_x coordX =
     (let topY = 18;
          svgElem = ''<text x="'' @ numStr img_x @ ''" y="'' @ numStr topY @
                    ''" class="'' @ cls @ ''" '' @ SVGTextSize @ '' color="'' @ color @ ''">'' @
                    coordCharAt coordX @ '' </text>\<newline>''
      in svgElem @ topRow radius0 color cls SVGTextSize n (img_x + radius0 * 2) (plusInt coordX 1))\<close>

definition drawCoordinates :: "FontSize \<Rightarrow> Parsed \<Rightarrow> string \<Rightarrow> string \<Rightarrow> string \<Rightarrow> string" where
  "drawCoordinates fs p color cls SVGTextSize =
     (let coordY = (if 0 < bottomborder p then Some (endrow p - startrow p + 1)
                    else if 0 < topborder p then boardSize p
                    else Some 0);
          coordX = (if 0 < leftborder p then Some 0
                    else if 0 < rightborder p then
                      (case plusInt (boardSize p) (- endcol p - 1) of
                         None \<Rightarrow> None
                       | Some c \<Rightarrow> if c < 0 then Some 0 else Some c)
                    else Some 0);
          img_y = 12 + of_int (h fs) + 2 + radius p - of_int (h fs) / 2;
          leftColSvgElems =
            leftColumn fs (radius p) color cls SVGTextSize (nat (endrow p - startrow p)) img_y coordY;
          img_x = 2 + of_int (w fs) * 2 + 4 + radius p - of_int (w fs) / 2;
          topRowSvgElems =
            topRow (radius p) color cls SVGTextSize (nat (endcol p - startcol p + 1)) img_x coordX
      in leftColSvgElems @ topRowSvgElems)"

subsection \<open>Rendering (\<^verbatim>\<open>createSVG\<close>)\<close>

text \<open>
  \<^verbatim>\<open>this.linkmap[curchar]\<close> as the text it concatenates to, \<^const>\<open>None\<close> when the test
  \<^verbatim>\<open>typeof this.linkmap[curchar] !== "undefined" && this.linkmap[curchar] !== null\<close> fails.
  The link map is a plain object, so a key that it does not hold is looked up in
  \<^verbatim>\<open>Object.prototype\<close>; an \<^verbatim>\<open>undefined\<close> key is the property name \<^verbatim>\<open>undefined\<close>.
\<close>

definition objectPrototype :: "(string \<times> string) list" where
  "objectPrototype =
     [(''constructor'', ''function Object() { [native code] }''),
      (''__defineGetter__'', ''function __defineGetter__() { [native code] }''),
      (''__defineSetter__'', ''function __defineSetter__() { [native code] }''),
      (''hasOwnProperty'', ''function hasOwnProperty() { [native code] }''),
      (''__lookupGetter__'', ''function __lookupGetter__() { [native code] }''),
      (''__lookupSetter__'', ''function __lookupSetter__() { [native code] }''),
      (''isPrototypeOf'', ''function isPrototypeOf() { [native code] }''),
      (''propertyIsEnumerable'', ''function propertyIsEnumerable() { [native code] }''),
      (''toString'', ''function toString() { [native code] }''),
      (''valueOf'', ''function valueOf() { [native code] }''),
      (''__proto__'', ''[object Object]''),
      (''toLocaleString'', ''function toLocaleString() { [native code] }'')]"

definition linkmapGet :: "(string \<times> string) list \<Rightarrow> string option \<Rightarrow> string option" where
  "linkmapGet lm curchar =
     (case map_of lm (toStr curchar) of
        Some url \<Rightarrow> Some url
      | None \<Rightarrow> map_of objectPrototype (toStr curchar))"

text \<open>
  \<^verbatim>\<open>imgSvg["links"] += s\<close> and the use of \<^verbatim>\<open>imgSvg["links"]\<close> in a concatenation: the entry
  is never assigned before, and \<^verbatim>\<open>undefined\<close> concatenates as the text \<^verbatim>\<open>undefined\<close>.
\<close>

definition appendTo :: "string option \<Rightarrow> string \<Rightarrow> string option" where
  "appendTo acc s = Some (toStr acc @ s)"

text \<open>The entries of \<^verbatim>\<open>imgSvg\<close>; \<^const>\<open>None\<close> is an entry that does not exist.\<close>

record ImgSvg =
  openSvgTag :: string
  closeSvgTag :: string
  background :: string
  coordinatesSvg :: string
  svgDiagram :: string
  links :: "string option"

definition linkArea :: "Parsed \<Rightarrow> rat \<Rightarrow> rat \<Rightarrow> string \<Rightarrow> string option \<Rightarrow> string option" where
  \<open>linkArea p elementX elementY url acc =
     (let acc1 = appendTo acc (''<a href="'' @ url @ ''" >\<newline>'');
          acc2 = appendTo acc1
                   (''<rect x="'' @ numStr (elementX - radius p) @ ''" y="'' @ numStr (elementY - radius p) @
                    ''" width="'' @ numStr (radius p * 2) @ ''" height="'' @ numStr (radius p * 2) @
                    ''" stroke="'' @ goban @ ''" fill="'' @ link @ ''" fill-opacity="'' @
                    numStr linkOpacity @ ''" />\<newline>'')
      in appendTo acc2 ''</a>\<newline>'')\<close>

text \<open>The text element that closes the \<^verbatim>\<open>default\<close> branch of the \<^verbatim>\<open>switch\<close>.\<close>

definition markupText :: "FontSize \<Rightarrow> rat \<Rightarrow> rat \<Rightarrow> string \<Rightarrow> string \<Rightarrow> string" where
  \<open>markupText fs elementX elementY markupColor curchar =
     (let svgMarkupTextSize = ''style="font-size:'' @ intStr ((h fs * 9) div 10) @ ''px"'';
          xOffset = (if geq10 (parseInt curchar) then of_int (w fs) else of_int (w fs) / 2);
          yOffset = of_int (h fs) / 2 - 25 / 2
      in ''<text x="'' @ numStr (elementX - xOffset) @ ''" y="'' @ numStr (elementY - yOffset) @
         ''" fill="'' @ markupColor @ ''" class="'' @ markupClass @ ''" '' @ svgMarkupTextSize @
         ''>'' @ curchar @ ''</text>\<newline>'')\<close>

definition isLowerLetter :: "string option \<Rightarrow> bool" where
  "isLowerLetter curchar = (case curchar of None \<Rightarrow> False | Some s \<Rightarrow> ''a'' \<le> s \<and> s \<le> ''z'')"

text \<open>
  The \<^verbatim>\<open>switch (curchar)\<close> of one cell: the markup \<^verbatim>\<open>svgItem\<close> of the cell, or the
  \<^verbatim>\<open>TypeError\<close> of \<^verbatim>\<open>getIntersectionType\<close>. In the branch of the letters the result of
  \<^verbatim>\<open>markIntersection\<close> is not appended to \<^verbatim>\<open>svgItem\<close>.
\<close>

definition cellSwitch ::
  "FontSize \<Rightarrow> (string \<times> string) list \<Rightarrow> Parsed \<Rightarrow> string \<Rightarrow> string \<Rightarrow> int \<Rightarrow> int \<Rightarrow> rat \<Rightarrow> rat \<Rightarrow>
   string option \<Rightarrow> error + string" where
  "cellSwitch fs lm p evencolor oddcolor xpos ypos elementX elementY curchar =
     (if curchar = Some ''X'' \<or> curchar = Some ''B'' \<or> curchar = Some ''#'' then
        Inr (drawStone p elementX elementY black black @
             (if curchar = Some ''X'' then []
              else markIntersection elementX elementY (radius p) red (toStr curchar)))
      else if curchar = Some ''O'' \<or> curchar = Some ''W'' \<or> curchar = Some ''@'' then
        Inr (drawStone p elementX elementY black white @
             (if curchar = Some ''O'' then []
              else markIntersection elementX elementY (radius p) red (toStr curchar)))
      else if curchar = Some ''.'' \<or> curchar = Some '','' \<or> curchar = Some ''C'' \<or> curchar = Some ''S'' then
        (case getIntersectionType p xpos ypos of
           Inl e \<Rightarrow> Inl e
         | Inr type \<Rightarrow>
             Inr (drawIntersection p elementX elementY black type @
                  (if curchar = Some ''.'' then []
                   else markIntersection elementX elementY (radius p)
                          (if curchar = Some '','' then black else red) (toStr curchar))))
      else if rem2 (parseIntOf curchar) = Some 1 then
        Inr (drawStone p elementX elementY black oddcolor @
             markupText fs elementX elementY evencolor (toStr curchar))
      else if rem2 (parseIntOf curchar) = Some 0 \<or> parseIntOf curchar = Some 0 then
        Inr (drawStone p elementX elementY black evencolor @
             markupText fs elementX elementY oddcolor
               (if curchar = Some ''0'' then ''10'' else toStr curchar))
      else if isLowerLetter curchar then
        (case getIntersectionType p xpos ypos of
           Inl e \<Rightarrow> Inl e
         | Inr type \<Rightarrow>
             (let bkColor = (case linkmapGet lm curchar of Some url \<Rightarrow> link | None \<Rightarrow> goban);
                  discarded = markIntersection elementX elementY (radius p + 4) bkColor ''@''
              in Inr (drawIntersection p elementX elementY black type @
                      drawStone p elementX elementY goban goban @
                      markupText fs elementX elementY black (toStr curchar))))
      else Inr [])"

text \<open>The centre of a cell, \<^verbatim>\<open>elementX\<close> and \<^verbatim>\<open>elementY\<close>.\<close>

definition elementX :: "Parsed \<Rightarrow> int \<Rightarrow> rat" where
  "elementX p xpos = of_int (xpos - startcol p) * (radius p * 2) + radius p + of_int (offset_x p)"

definition elementY :: "Parsed \<Rightarrow> int \<Rightarrow> rat" where
  "elementY p ypos = of_int (ypos - startrow p) * (radius p * 2) + radius p + of_int (offset_y p)"

text \<open>One iteration of the inner loop: the cell \<open>(xpos, ypos)\<close>.\<close>

definition drawCell ::
  "GoDiagram \<Rightarrow> Parsed \<Rightarrow> string \<Rightarrow> string \<Rightarrow> int \<Rightarrow> int \<Rightarrow> ImgSvg \<Rightarrow> error + ImgSvg" where
  "drawCell d p evencolor oddcolor ypos xpos img =
     (case getRow (rows p) ypos of
        Inl e \<Rightarrow> Inl e
      | Inr r \<Rightarrow>
          (let curchar = rowAt r xpos;
               img1 = (case linkmapGet (linkmap d) curchar of
                         None \<Rightarrow> img
                       | Some url \<Rightarrow>
                           img\<lparr>links := linkArea p (elementX p xpos) (elementY p ypos) url (links img)\<rparr>)
           in case cellSwitch (fontSize d) (linkmap d) p evencolor oddcolor xpos ypos
                     (elementX p xpos) (elementY p ypos) curchar of
                Inl e \<Rightarrow> Inl e
              | Inr svgItem \<Rightarrow> Inr (img1\<lparr>svgDiagram := svgDiagram img1 @ svgItem\<rparr>)))"

text \<open>The loop over \<open>xpos\<close> and the loop over \<open>ypos\<close>; a throw leaves both.\<close>

fun drawRow ::
  "GoDiagram \<Rightarrow> Parsed \<Rightarrow> string \<Rightarrow> string \<Rightarrow> int \<Rightarrow> int list \<Rightarrow> ImgSvg \<Rightarrow> error + ImgSvg" where
  "drawRow d p evencolor oddcolor ypos [] img = Inr img"
| "drawRow d p evencolor oddcolor ypos (xpos # xs) img =
     (case drawCell d p evencolor oddcolor ypos xpos img of
        Inl e \<Rightarrow> Inl e
      | Inr img1 \<Rightarrow> drawRow d p evencolor oddcolor ypos xs img1)"

fun drawRows ::
  "GoDiagram \<Rightarrow> Parsed \<Rightarrow> string \<Rightarrow> string \<Rightarrow> int list \<Rightarrow> ImgSvg \<Rightarrow> error + ImgSvg" where
  "drawRows d p evencolor oddcolor [] img = Inr img"
| "drawRows d p evencolor oddcolor (ypos # ys) img =
     (case drawRow d p evencolor oddcolor ypos [startcol p .. endcol p] img of
        Inl e \<Rightarrow> Inl e
      | Inr img1 \<Rightarrow> drawRows d p evencolor oddcolor ys img1)"

text \<open>
  \<^verbatim>\<open>createSvgErrorMessage\<close> builds a \<^verbatim>\<open>g\<close> element with the DOM and returns \<^verbatim>\<open>String(svgError)\<close>:
  the text that an element converts to, whatever the message.
\<close>

definition createSvgErrorMessage :: "GoDiagram \<Rightarrow> string \<Rightarrow> string" where
  "createSvgErrorMessage d errorClass = ''[object SVGGElement]''"

record SvgResult =
  xml :: string
  width :: "int option"
  height :: "int option"

text \<open>The branch \<^verbatim>\<open>this.diagram === null\<close> of \<^verbatim>\<open>createSVG\<close>.\<close>

definition createSVGFailed :: "GoDiagram \<Rightarrow> (error + SvgResult) \<times> GoDiagram" where
  "createSVGFailed d =
     (let d1 = d\<lparr>failureErrorMessage := ''Parsing of ASCII diagram failed''\<rparr>
      in (Inr \<lparr> xml = createSvgErrorMessage d1 [], width = None, height = None \<rparr>, d1))"

text \<open>The other branch: no field of the instance is assigned.\<close>

definition svgOpen :: "Parsed \<Rightarrow> string" where
  \<open>svgOpen p =
     ''<svg width = "'' @ intStr (imageWidth p) @ ''" height = "'' @ intStr (imageHeight p) @
     ''">\<newline>''\<close>

definition svgBackground :: "Parsed \<Rightarrow> string" where
  \<open>svgBackground p =
     ''<rect  x="0" y="0" width="'' @ intStr (imageWidth p) @ ''" height = "'' @
     intStr (imageHeight p) @ ''" fill = "'' @ goban @ ''"/>\<newline>''\<close>

definition svgCoordinates :: "GoDiagram \<Rightarrow> Parsed \<Rightarrow> string" where
  \<open>svgCoordinates d p =
     (let svgDefaultTextSize = ''style="font-size:'' @ numStr (of_int (h (fontSize d)) / 2) @ ''px"''
      in if coordinates p then drawCoordinates (fontSize d) p black coordClass svgDefaultTextSize
         else [])\<close>

definition evenColor :: "Parsed \<Rightarrow> string" where
  "evenColor p = (if firstColor p = ''W'' then black else white)"

definition oddColor :: "Parsed \<Rightarrow> string" where
  "oddColor p = (if firstColor p = ''W'' then white else black)"

definition createSVGValid :: "GoDiagram \<Rightarrow> Parsed \<Rightarrow> error + SvgResult" where
  \<open>createSVGValid d p =
     (let img0 = \<lparr> openSvgTag = svgOpen p,
                   closeSvgTag = ''</svg>\<newline>'',
                   background = svgBackground p,
                   coordinatesSvg = svgCoordinates d p,
                   svgDiagram = [],
                   links = None \<rparr>
      in case drawRows d p (evenColor p) (oddColor p) [startrow p .. endrow p] img0 of
           Inl e \<Rightarrow> Inl e
         | Inr img \<Rightarrow>
             Inr \<lparr> xml = openSvgTag img @ background img @ svgDiagram img @ toStr (links img) @
                         coordinatesSvg img @ closeSvgTag img,
                   width = Some (imageWidth p), height = Some (imageHeight p) \<rparr>)\<close>

text \<open>\<^verbatim>\<open>createSVG()\<close>: the result, or the error thrown, and the instance after the call.\<close>

definition createSVG :: "GoDiagram \<Rightarrow> (error + SvgResult) \<times> GoDiagram" where
  "createSVG d =
     (case parsed d of
        None \<Rightarrow> createSVGFailed d
      | Some p \<Rightarrow>
          (case diagram p of
             None \<Rightarrow> createSVGFailed d
           | Some body \<Rightarrow> (createSVGValid d p, d)))"

text \<open>The caller in \<^verbatim>\<open>main.ts\<close>: construct, then render.\<close>

definition render :: "string \<Rightarrow> error + SvgResult" where
  "render source =
     (case newGoDiagram source defaultFontSize of
        Inl e \<Rightarrow> Inl e
      | Inr d \<Rightarrow> fst (createSVG d))"

subsection \<open>Notions used to state the properties\<close>

text \<open>A string that is empty or ends with a newline, as \<^verbatim>\<open>this.diagram\<close> always is.\<close>

definition endsWithNewline :: "string \<Rightarrow> bool" where
  "endsWithNewline s \<longleftrightarrow> s = [] \<or> last s = CHR 0x0A"

text \<open>The first line of the input does not match the header expression.\<close>

definition headerFails :: "string \<Rightarrow> bool" where
  "headerFails s =
     (case split CHR 0x0A s of [] \<Rightarrow> True | line0 # lines \<Rightarrow> matchHeader (trim line0) = None)"

text \<open>The test at the end of the constructor, read on the fields of the instance.\<close>

definition boundsDegenerate :: "GoDiagram \<Rightarrow> bool" where
  "boundsDegenerate d =
     (case parsed d of
        None \<Rightarrow> False
      | Some p \<Rightarrow>
          startrow p > endrow p \<or> startcol p > endcol p \<or> endrow p < 0 \<or> endcol p < 0 \<or>
          imageWidth p < w (fontSize d) \<or> imageHeight p < h (fontSize d))"

text \<open>The instance after \<open>n\<close> calls of \<^verbatim>\<open>createSVG\<close>.\<close>

fun afterCalls :: "nat \<Rightarrow> GoDiagram \<Rightarrow> GoDiagram" where
  "afterCalls 0 d = d"
| "afterCalls (Suc n) d = afterCalls n (snd (createSVG d))"

definition errorPlaceholder :: SvgResult where
  "errorPlaceholder = \<lparr> xml = ''[object SVGGElement]'', width = None, height = None \<rparr>"



definition cellMarkup :: "GoDiagram \<Rightarrow> Parsed \<Rightarrow> int \<Rightarrow> int \<Rightarrow> string" where
  "cellMarkup d p ypos xpos =
     (case getRow (rows p) ypos of
        Inl e \<Rightarrow> []
      | Inr r \<Rightarrow>
          (case cellSwitch (fontSize d) (linkmap d) p (evenColor p) (oddColor p) xpos ypos
                  (elementX p xpos) (elementY p ypos) (rowAt r xpos) of
             Inl e \<Rightarrow> []
           | Inr svgItem \<Rightarrow> svgItem))"






section \<open>Properties\<close>

subsection \<open>The constructor returns, and the last row of the grid is empty\<close>

lemma split_nonempty: "split sep s \<noteq> []"
  by (induction s) (auto split: list.splits)

lemma split_snoc_sep: "split sep (s @ [sep]) = split sep s @ [[]]"
proof (induction s)
  case Nil
  show ?case by simp
next
  case (Cons c s)
  obtain r rs where rs: "split sep s = r # rs"
    using split_nonempty [of sep s] by (cases "split sep s") auto
  show ?case using Cons rs by simp
qed

lemma collapseNewlines_last:
  "s \<noteq> [] \<Longrightarrow> last s = CHR 0x0A \<Longrightarrow>
   collapseNewlines s \<noteq> [] \<and> last (collapseNewlines s) = CHR 0x0A"
proof (induction s rule: collapseNewlines.induct)
  case 1
  then show ?case by simp
next
  case (2 c cs)
  show ?case
  proof (cases "c = CHR 0x0A")
    case True
    let ?r = "dropWhile (\<lambda>x. x = CHR 0x0A) cs"
    show ?thesis
    proof (cases "?r = []")
      case True
      with \<open>c = CHR 0x0A\<close> show ?thesis by (simp del: dropWhile_eq_Nil_conv)
    next
      case False
      have "cs = takeWhile (\<lambda>x. x = CHR 0x0A) cs @ ?r" by simp
      then have "last cs = last ?r" using False by (metis last_appendR)
      moreover have "cs \<noteq> []" using False by auto
      ultimately have "last ?r = CHR 0x0A" using "2.prems" by simp
      with "2.IH"(1) [OF True False] True False show ?thesis by simp
    qed
  next
    case False
    then have "cs \<noteq> []" using "2.prems" by auto
    moreover have "last cs = CHR 0x0A" using "2.prems" \<open>cs \<noteq> []\<close> by simp
    ultimately show ?thesis using "2.IH"(2) [OF False] False by simp
  qed
qed

lemma readLine_ends: "endsWithNewline (fst acc) \<Longrightarrow> endsWithNewline (fst (readLine acc line))"
  by (cases acc) (auto simp: readLine_def endsWithNewline_def Let_def split: option.splits)

lemma foldl_readLine_ends:
  "endsWithNewline (fst acc) \<Longrightarrow> endsWithNewline (fst (foldl readLine acc ls))"
proof (induction ls arbitrary: acc)
  case Nil
  then show ?case by simp
next
  case (Cons l ls)
  show ?case using Cons.IH [of "readLine acc l"] readLine_ends [OF Cons.prems] by simp
qed

lemma readLines_ends: "endsWithNewline (fst (readLines ls))"
  unfolding readLines_def by (rule foldl_readLine_ends) (simp add: endsWithNewline_def)

lemma prepared_ends:
  assumes "endsWithNewline s"
  shows "endsWithNewline (collapseNewlines (removeChars (replaceBorderChars s)))"
proof (cases "s = []")
  case True
  then show ?thesis by (simp add: endsWithNewline_def removeChars_def replaceBorderChars_def)
next
  case False
  then have l: "last s = CHR 0x0A" using assms by (simp add: endsWithNewline_def)
  have 1: "replaceBorderChars s \<noteq> [] \<and> last (replaceBorderChars s) = CHR 0x0A"
    using False l by (simp add: replaceBorderChars_def last_map)
  obtain t where t: "replaceBorderChars s = t @ [CHR 0x0A]"
    using 1 by (metis append_butlast_last_id)
  have 2: "removeChars (replaceBorderChars s) = removeChars t @ [CHR 0x0A]"
    by (simp add: t removeChars_def)
  show ?thesis
    using collapseNewlines_last [of "removeChars t @ [CHR 0x0A]"] 2
    by (simp add: endsWithNewline_def)
qed

lemma classifyRow_Nil: "classifyRow [] = Compact []"
  by (simp add: classifyRow_def isNonCompact_def)

text \<open>A row that ends with a space passes the space test whatever comes before.\<close>

lemma isNonCompact_trailing_space:
  "isNonCompact (r @ '' '') \<longleftrightarrow> list_ex isDigit r \<and> CHR ''{'' \<notin> set r"
  by (auto simp: isNonCompact_def isDigit_def list_ex_iff less_eq_char_def)

text \<open>A row written with spaces keeps a move of two digits as one token.\<close>

lemma spaced_row_two_digit_token:
  "classifyRow ''. 12 . '' = Tokens [''.'', ''12'', ''.'', []]"
  by code_simp

lemma normalize_shape:
  assumes "endsWithNewline s"
  shows "normalize s \<noteq> [] \<and> last (normalize s) = Compact []"
proof -
  let ?t = "collapseNewlines (removeChars (replaceBorderChars s))"
  have e: "endsWithNewline ?t" using assms by (rule prepared_ends)
  show ?thesis
  proof (cases "?t = []")
    case True
    then show ?thesis by (simp add: normalize_def classifyRow_Nil)
  next
    case False
    then obtain u where u: "?t = u @ [CHR 0x0A]"
      using e by (metis append_butlast_last_id endsWithNewline_def)
    show ?thesis
      by (simp add: normalize_def u split_snoc_sep classifyRow_Nil del: collapseNewlines.simps)
  qed
qed


lemma rowAt_empty: "rowAt (Compact []) i = None"
  by (simp add: rowAt_def)

lemma getRow_in: "0 \<le> y \<Longrightarrow> y < int (length rs) \<Longrightarrow> getRow rs y = Inr (rs ! nat y)"
  by (simp add: getRow_def)

lemma findBorders_trailing_empty:
  assumes ne: "rs \<noteq> []" and l: "last rs = Compact []"
  shows "\<exists>b. findBorders rs = Inr b \<and> b_bottomborder b = 0 \<and> b_rightborder b = 0 \<and>
             b_endrow b = int (length rs) - 1 \<and> 0 \<le> b_startrow b \<and> b_startrow b \<le> b_endrow b \<and>
             0 \<le> b_startcol b"
proof -
  have g0: "getRow rs 0 = Inr (rs ! 0)" using ne by (simp add: getRow_def)
  have gl: "getRow rs (int (length rs) - 1) = Inr (Compact [])"
  proof -
    have "nat (int (length rs) - 1) = length rs - 1" by simp
    then show ?thesis using ne l by (simp add: getRow_def last_conv_nth)
  qed
  have two: "isBorder (rowAt (rs ! 0) 1) \<Longrightarrow> 2 \<le> length rs"
  proof (rule ccontr)
    assume b: "isBorder (rowAt (rs ! 0) 1)" and "\<not> 2 \<le> length rs"
    then have "length rs = 1" using ne by (cases rs) (auto simp: not_le)
    then have "rs ! 0 = Compact []" using l by (cases rs) auto
    with b show False by (simp add: isBorder_def rowAt_empty)
  qed
  show ?thesis
  proof (cases "isBorder (rowAt (rs ! 0) 1)")
    case True
    then have g1: "getRow rs 1 = Inr (rs ! 1)" using two by (simp add: getRow_def)
    show ?thesis using True two
      by (simp add: findBorders_def g0 gl g1 isBorder_def rowAt_empty Let_def split: prod.splits)
  next
    case False
    show ?thesis using False ne
      by (simp add: findBorders_def g0 gl isBorder_def rowAt_empty Let_def split: prod.splits)
  qed
qed

lemma constructor_total: "\<exists>d. newGoDiagram s fs = Inr d"
proof -
  obtain line0 lines where c: "split CHR 0x0A s = line0 # lines"
    using split_nonempty [of "CHR 0x0A" s] by (cases "split CHR 0x0A s") auto
  show ?thesis
  proof (cases "matchHeader (trim line0)")
    case None
    then show ?thesis by (simp add: newGoDiagram_def c)
  next
    case (Some m)
    obtain m1 m2 m3 m4 where m: "m = (m1, m2, m3, m4)" by (cases m) auto
    obtain diagram0 linkmap0 where r: "readLines lines = (diagram0, linkmap0)"
      by (cases "readLines lines") auto
    have "endsWithNewline diagram0" using readLines_ends [of lines] r by simp
    then have "normalize diagram0 \<noteq> [] \<and> last (normalize diagram0) = Compact []"
      by (rule normalize_shape)
    then obtain b where "findBorders (normalize diagram0) = Inr b"
      using findBorders_trailing_empty by blast
    then show ?thesis by (simp add: newGoDiagram_def c Some m r Let_def)
  qed
qed

lemma constructor_parsed:
  assumes "newGoDiagram s fs = Inr d" and "parsed d = Some p"
  shows "\<exists>b line0 lines m1 m2 m3 m4.
           split CHR 0x0A s = line0 # lines \<and>
           matchHeader (trim line0) = Some (m1, m2, m3, m4) \<and>
           findBorders (normalize (fst (readLines lines))) = Inr b \<and>
           fontSize d = fs \<and> linkmap d = snd (readLines lines) \<and>
           rows p = normalize (fst (readLines lines)) \<and>
           boardSize p = (case m3 of None \<Rightarrow> Some 19 | Some ds \<Rightarrow> parseInt ds) \<and>
           startrow p = b_startrow b \<and> startcol p = b_startcol b \<and>
           endrow p = b_endrow b \<and> endcol p = b_endcol b \<and>
           topborder p = b_topborder b \<and> bottomborder p = b_bottomborder b \<and>
           leftborder p = b_leftborder b \<and> rightborder p = b_rightborder b \<and>
           imageWidth p = l_imageWidth (layout fs (m2 \<noteq> None) b) \<and>
           imageHeight p = l_imageHeight (layout fs (m2 \<noteq> None) b) \<and>
           diagram p = (if degenerate fs b (layout fs (m2 \<noteq> None) b) then None
                        else Some (fst (readLines lines)))"
proof -
  obtain line0 lines where c: "split CHR 0x0A s = line0 # lines"
    using split_nonempty [of "CHR 0x0A" s] by (cases "split CHR 0x0A s") auto
  show ?thesis
  proof (cases "matchHeader (trim line0)")
    case None
    then show ?thesis using assms by (auto simp: newGoDiagram_def c)
  next
    case (Some m)
    obtain m1 m2 m3 m4 where m: "m = (m1, m2, m3, m4)" by (cases m) auto
    obtain diagram0 linkmap0 where r: "readLines lines = (diagram0, linkmap0)"
      by (cases "readLines lines") auto
    have cc: "(case m2 of None \<Rightarrow> False | Some x \<Rightarrow> True) = (m2 \<noteq> None)" by (cases m2) auto
    show ?thesis
    proof (cases "findBorders (normalize diagram0)")
      case (Inl e)
      then show ?thesis using assms by (simp add: newGoDiagram_def c Some m r Let_def)
    next
      case (Inr b)
      then show ?thesis using assms
        by (auto simp: newGoDiagram_def c Some m r Let_def cc)
    qed
  qed
qed

lemma bottom_border_never_set:
  assumes "newGoDiagram s fs = Inr d" and "parsed d = Some p"
  shows "bottomborder p = 0 \<and> rightborder p = 0 \<and> endrow p = int (length (rows p)) - 1 \<and>
         rows p \<noteq> [] \<and> last (rows p) = Compact [] \<and> 0 \<le> startrow p \<and> 0 \<le> startcol p"
proof -
  from constructor_parsed [OF assms] obtain b lines where
    f: "findBorders (normalize (fst (readLines lines))) = Inr b" and
    r: "rows p = normalize (fst (readLines lines))" and
    e: "bottomborder p = b_bottomborder b" "rightborder p = b_rightborder b"
       "endrow p = b_endrow b" "startrow p = b_startrow b" "startcol p = b_startcol b"
    by blast
  have n: "normalize (fst (readLines lines)) \<noteq> [] \<and> last (normalize (fst (readLines lines))) = Compact []"
    using readLines_ends by (rule normalize_shape)
  from findBorders_trailing_empty [of "normalize (fst (readLines lines))"] n f
  show ?thesis using r e by auto
qed


lemma header_group3_NaN:
  assumes "matchHeader line = Some (m1, m2, Some ds, m4)"
  shows "parseInt ds = None"
proof -
  from assms obtain r where ds: "ds = takeWhile (\<lambda>c. c = CHR ''d'') r" and ne: "ds \<noteq> []"
    by (auto simp: matchHeader_def Let_def split: list.splits if_splits prod.splits)
  have "hd ds \<in> set ds" using ne by simp
  then have "hd ds = CHR ''d''" unfolding ds by (rule set_takeWhileD [THEN conjunct2])
  then obtain t where t: "ds = CHR ''d'' # t" using ne by (cases ds) auto
  show ?thesis
    by (simp add: parseInt_def t isWhiteSpace_def stripSign_def stripHexPrefix_def isDigit_def
          Let_def split: list.splits)
qed

lemma boardSize_19_or_NaN:
  assumes "newGoDiagram s fs = Inr d" and "parsed d = Some p"
  shows "boardSize p = Some 19 \<or> boardSize p = None"
proof -
  from constructor_parsed [OF assms] obtain line0 m1 m2 m3 m4 where
    m: "matchHeader (trim line0) = Some (m1, m2, m3, m4)" and
    b: "boardSize p = (case m3 of None \<Rightarrow> Some 19 | Some ds \<Rightarrow> parseInt ds)"
    by blast
  show ?thesis
  proof (cases m3)
    case None
    then show ?thesis using b by simp
  next
    case (Some ds)
    then show ?thesis using b header_group3_NaN [of "trim line0" m1 m2 ds m4] m by simp
  qed
qed

lemma constructor_diagram_None_iff:
  assumes "newGoDiagram s fs = Inr d" and "parsed d = Some p"
  shows "diagram p = None \<longleftrightarrow>
           (startrow p > endrow p \<or> startcol p > endcol p \<or> endrow p < 0 \<or> endcol p < 0 \<or>
            imageWidth p < w (fontSize d) \<or> imageHeight p < h (fontSize d))"
proof -
  from constructor_parsed [OF assms] obtain b c body where
    "fontSize d = fs"
    "startrow p = b_startrow b" "startcol p = b_startcol b"
    "endrow p = b_endrow b" "endcol p = b_endcol b"
    "imageWidth p = l_imageWidth (layout fs c b)"
    "imageHeight p = l_imageHeight (layout fs c b)"
    "diagram p = (if degenerate fs b (layout fs c b) then None else Some body)"
    by blast
  then show ?thesis by (auto simp: degenerate_def)
qed

lemma header_failed_parsed:
  assumes "newGoDiagram s fs = Inr d"
  shows "headerFails s \<longleftrightarrow> parsed d = None"
proof -
  obtain line0 lines where c: "split CHR 0x0A s = line0 # lines"
    using split_nonempty [of "CHR 0x0A" s] by (cases "split CHR 0x0A s") auto
  show ?thesis
  proof (cases "matchHeader (trim line0)")
    case None
    then show ?thesis using assms by (auto simp: newGoDiagram_def c headerFails_def)
  next
    case (Some m)
    then show ?thesis using assms
      by (auto simp: newGoDiagram_def c headerFails_def Let_def split: prod.splits sum.splits)
  qed
qed

lemma createSVG_invalid:
  assumes "diagramOf d = None"
  shows "fst (createSVG d) = Inr errorPlaceholder \<and> diagramOf (snd (createSVG d)) = None"
  using assms
  by (auto simp: createSVG_def createSVGFailed_def diagramOf_def errorPlaceholder_def
        createSvgErrorMessage_def Let_def split: option.splits)

lemma afterCalls_invalid: "diagramOf d = None \<Longrightarrow> diagramOf (afterCalls n d) = None"
proof (induction n arbitrary: d)
  case 0
  then show ?case by simp
next
  case (Suc n)
  then show ?case using createSVG_invalid [of d] by simp
qed

text \<open>
  The probe for the bottom border reads index 1 of the last element of the grid; by
  \<open>bottom_border_never_set\<close> that element is the empty row in every instance.
\<close>

lemma findBorders_bottom_probe:
  assumes "findBorders rs = Inr b"
  shows "(if isBorder (rowAt (last rs) 1)
          then b_bottomborder b = 1 \<and> b_endrow b = int (length rs) - 2
          else b_bottomborder b = 0 \<and> b_endrow b = int (length rs) - 1)"
proof -
  have ne: "rs \<noteq> []" using assms by (auto simp: findBorders_def getRow_def)
  have "nat (int (length rs) - 1) = length rs - 1" by simp
  then have gl: "getRow rs (int (length rs) - 1) = Inr (last rs)"
    using ne by (simp add: getRow_def last_conv_nth)
  show ?thesis using assms
    by (auto simp: findBorders_def gl Let_def split: sum.splits if_splits prod.splits)
qed

subsection \<open>The diameter\<close>

lemma bitlen_bound: "n < 2 ^ bitlen n"
proof (induction n rule: bitlen.induct)
  case (1 n)
  show ?case
  proof (cases "n \<le> 0")
    case True
    then show ?thesis by (simp add: bitlen.simps)
  next
    case False
    have "n div 2 < 2 ^ bitlen (n div 2)" using 1 False by simp
    then have "n < 2 * 2 ^ bitlen (n div 2)" by linarith
    then show ?thesis using False by (subst bitlen.simps) simp
  qed
qed

lemma isqrtFrom_correct:
  assumes "res * res \<le> n" and "n < (res + 2 ^ Suc i) * (res + 2 ^ Suc i)"
  shows "isqrtFrom n res i * isqrtFrom n res i \<le> n \<and>
         n < (isqrtFrom n res i + 1) * (isqrtFrom n res i + 1)"
  using assms
proof (induction i arbitrary: res)
  case 0
  then show ?case by (auto simp: not_le algebra_simps)
next
  case (Suc i)
  show ?case
  proof (cases "(res + 2 ^ Suc i) * (res + 2 ^ Suc i) \<le> n")
    case True
    have "res + 2 ^ Suc i + 2 ^ Suc i = res + 2 ^ Suc (Suc i)" by simp
    then have "n < (res + 2 ^ Suc i + 2 ^ Suc i) * (res + 2 ^ Suc i + 2 ^ Suc i)"
      using Suc.prems(2) by metis
    from Suc.IH [OF True this] True show ?thesis by simp
  next
    case False
    then have "n < (res + 2 ^ Suc i) * (res + 2 ^ Suc i)" by simp
    from Suc.IH [OF Suc.prems(1) this] False show ?thesis by simp
  qed
qed

text \<open>\<open>isqrt\<close> is the integer square root.\<close>

lemma isqrt_correct:
  assumes "0 \<le> n"
  shows "isqrt n * isqrt n \<le> n \<and> n < (isqrt n + 1) * (isqrt n + 1)"
proof -
  have "bitlen n \<le> 2 * Suc (bitlen n div 2)" by simp
  then have "(2::int) ^ bitlen n \<le> 2 ^ (2 * Suc (bitlen n div 2))"
    by (rule power_increasing) simp
  also have "\<dots> = 2 ^ Suc (bitlen n div 2) * 2 ^ Suc (bitlen n div 2)"
    by (metis mult_2 power_add)
  finally have "n < (0 + 2 ^ Suc (bitlen n div 2)) * (0 + 2 ^ Suc (bitlen n div 2))"
    using bitlen_bound [of n] by simp
  moreover have "(0::int) * 0 \<le> n" using assms by simp
  ultimately show ?thesis
    using isqrtFrom_correct [of 0 n "bitlen n div 2"] by (simp add: isqrt_def)
qed

text \<open>
  The diameter at the default font size, and at a font size where the rounded root
  reaches the next integer (the integer square root of the radicand is 67117698).
\<close>

lemma diameter_default: "diameterOf defaultFontSize = 17"
  by code_simp

lemma diameter_rounded_up:
  "diameterOf \<lparr> h = 67117698, w = 11586 \<rparr> = 67117699 \<and>
   isqrt (67117698 * 67117698 + 11586 * 11586) = 67117698"
  by code_simp

subsection \<open>The cells\<close>

lemma parseInt_letter:
  assumes "CHR ''a'' \<le> c" and "c \<le> CHR ''z''"
  shows "parseInt [c] = None"
  using assms
  by (auto simp: parseInt_def isWhiteSpace_def stripSign_def stripHexPrefix_def isDigit_def
        Let_def less_eq_char_def split: list.splits)

lemma letter_cell_markup:
  assumes "CHR ''a'' \<le> c" and "c \<le> CHR ''z''"
      and "getIntersectionType p xpos ypos = Inr type"
  shows "cellSwitch fs lm p ev od xpos ypos ex ey (Some [c]) =
           Inr (drawIntersection p ex ey black type @ drawStone p ex ey goban goban @
                markupText fs ex ey black [c])"
proof -
  have n: "parseIntOf (Some [c]) = None" using parseInt_letter [OF assms(1,2)]
    by (simp add: parseIntOf_def toStr_def)
  have l: "isLowerLetter (Some [c])" using assms(1,2) by (auto simp: isLowerLetter_def)
  have ne: "c \<noteq> CHR ''X''" "c \<noteq> CHR ''B''" "c \<noteq> CHR ''#''" "c \<noteq> CHR ''O''" "c \<noteq> CHR ''W''"
    "c \<noteq> CHR ''@''" "c \<noteq> CHR ''.''" "c \<noteq> CHR '',''" "c \<noteq> CHR ''C''" "c \<noteq> CHR ''S''"
    using assms(1) by (auto simp: less_eq_char_def)
  show ?thesis
    by (simp add: cellSwitch_def n l ne assms(3) rem2_def Let_def toStr_def)
qed










section \<open>The claims\<close>

text \<open>
  Claim C1 (every input is rendered without a crash, and the four neighbour probes of
  \<^verbatim>\<open>getIntersectionType\<close> are always well-defined) fails on the code: for the diagram of one
  row \<^verbatim>\<open>..\<close> with no top border the constructor returns a valid instance, and \<^verbatim>\<open>createSVG\<close>
  throws a \<^verbatim>\<open>TypeError\<close> at the cell (0, 0), where \<^verbatim>\<open>getIntersectionType\<close> indexes
  \<^verbatim>\<open>this.rows[-1]\<close>.
\<close>

theorem createSVG_throws_without_top_border:
  "(case newGoDiagram ''$$\<newline>$$ ..'' defaultFontSize of
      Inl e \<Rightarrow> False
    | Inr d \<Rightarrow>
        diagramOf d \<noteq> None \<and> fst (createSVG d) = Inl TypeError \<and>
        (case parsed d of
           None \<Rightarrow> False
         | Some p \<Rightarrow>
             startrow p = 0 \<and> startcol p = 0 \<and> getRow (rows p) (- 1) = Inl TypeError \<and>
             getIntersectionType p 0 0 = Inl TypeError))"
  by code_simp

text \<open>
  Claim C2: when the first line fails the header match, or the bounds computed by the
  constructor are degenerate (inverted or negative span, image smaller than one font cell),
  \<^verbatim>\<open>this.diagram\<close> is \<^verbatim>\<open>null\<close>, and the call of \<^verbatim>\<open>createSVG\<close> after any number \<open>n\<close> of earlier
  calls returns the error placeholder with \<^verbatim>\<open>width\<close> and \<^verbatim>\<open>height\<close> \<^verbatim>\<open>null\<close>.
\<close>

theorem invalid_diagram_always_placeholder:
  assumes "newGoDiagram s fs = Inr d" and "headerFails s \<or> boundsDegenerate d"
  shows "diagramOf d = None \<and> fst (createSVG (afterCalls n d)) = Inr errorPlaceholder"
proof -
  have "diagramOf d = None"
  proof (cases "parsed d")
    case None
    then show ?thesis by (simp add: diagramOf_def)
  next
    case (Some p)
    then have "\<not> headerFails s" using header_failed_parsed [OF assms(1)] by simp
    then have "boundsDegenerate d" using assms(2) by simp
    then show ?thesis
      using constructor_diagram_None_iff [OF assms(1) Some] Some
      by (simp add: boundsDegenerate_def diagramOf_def)
  qed
  then show ?thesis using afterCalls_invalid createSVG_invalid by blast
qed

theorem invalid_diagram_always_placeholder_witness:
  "(\<exists>d. newGoDiagram ''$B9\<newline>$$ X'' defaultFontSize = Inr d \<and> headerFails ''$B9\<newline>$$ X'' \<and>
        diagramOf d = None \<and> fst (createSVG (afterCalls 2 d)) = Inr errorPlaceholder) \<and>
   (\<exists>d. newGoDiagram ''$$\<newline>$$ X'' defaultFontSize = Inr d \<and> boundsDegenerate d \<and>
        diagramOf d = None \<and> fst (createSVG (afterCalls 2 d)) = Inr errorPlaceholder)"
proof -
  obtain d1 where d1: "newGoDiagram ''$B9\<newline>$$ X'' defaultFontSize = Inr d1"
    using constructor_total by blast
  have h1: "headerFails ''$B9\<newline>$$ X''" by code_simp
  obtain d2 where d2: "newGoDiagram ''$$\<newline>$$ X'' defaultFontSize = Inr d2"
    using constructor_total by blast
  have "case newGoDiagram ''$$\<newline>$$ X'' defaultFontSize of Inl e \<Rightarrow> False | Inr d \<Rightarrow> boundsDegenerate d"
    by code_simp
  then have h2: "boundsDegenerate d2" using d2 by simp
  have 1: "headerFails ''$B9\<newline>$$ X'' \<or> boundsDegenerate d1" using h1 by simp
  have 2: "headerFails ''$$\<newline>$$ X'' \<or> boundsDegenerate d2" using h2 by simp
  from invalid_diagram_always_placeholder [OF d1 1, of 2]
       invalid_diagram_always_placeholder [OF d2 2, of 2] d1 d2 h1 h2
  show ?thesis by blast
qed

text \<open>
  Claim C3 (a run of decimal digits after the colour letter and the coordinate flag becomes
  \<^verbatim>\<open>boardSize\<close>) fails on the code: the header expression has \<^verbatim>\<open>(d+)\<close>, a run of the letter
  \<^verbatim>\<open>d\<close>, where the digits are meant, so for the first line \<^verbatim>\<open>$$B9\<close> the board size is 19 and
  the digit goes to the title.
\<close>

theorem boardSize_ignores_digits:
  "(case newGoDiagram ''$$B9\<newline>$$ ..'' defaultFontSize of
      Inl e \<Rightarrow> False
    | Inr d \<Rightarrow>
        map_option boardSize (parsed d) = Some (Some 19) \<and>
        map_option title (parsed d) = Some ''9'')"
  by code_simp

text \<open>
  Claim C4 (a line is split on spaces exactly when it has an interior space, a digit and
  no \<^verbatim>\<open>{\<close>; any other line becomes one-character cells) fails on the code: normalisation has
  put a space at the end of every line, so the compact row \<^verbatim>\<open>.1.\<close>, which has no interior
  space, passes the test and is split on spaces into the token \<^verbatim>\<open>.1.\<close> and an empty token.
\<close>

theorem compact_row_with_digit_is_split_on_spaces:
  "(case newGoDiagram ''$$\<newline>$$ .1.'' defaultFontSize of
      Inl e \<Rightarrow> False
    | Inr d \<Rightarrow> map_option rows (parsed d) = Some [Tokens [''.1.'', []], Compact []])"
  by code_simp

text \<open>
  Claim C5: an instance that the constructor leaves valid (\<^verbatim>\<open>this.diagram\<close> not \<^verbatim>\<open>null\<close>) has
  \<open>startrow \<le> endrow\<close> and \<open>startcol \<le> endcol\<close>; an instance whose bounds violate one of the two
  is invalid.
\<close>

theorem valid_diagram_bounds:
  assumes "newGoDiagram s fs = Inr d"
  shows "(diagramOf d \<noteq> None \<longrightarrow>
            (\<exists>p. parsed d = Some p \<and> startrow p \<le> endrow p \<and> startcol p \<le> endcol p)) \<and>
         (\<forall>p. parsed d = Some p \<and> (endrow p < startrow p \<or> endcol p < startcol p) \<longrightarrow>
            diagramOf d = None)"
proof (cases "parsed d")
  case None
  then show ?thesis by (simp add: diagramOf_def)
next
  case (Some p)
  from constructor_diagram_None_iff [OF assms Some] show ?thesis
    using Some by (auto simp: diagramOf_def)
qed

theorem valid_diagram_bounds_witness:
  "(\<exists>d. newGoDiagram ''$$\<newline>$$ +--+\<newline>$$ |..|'' defaultFontSize = Inr d \<and> diagramOf d \<noteq> None \<and>
        (\<exists>p. parsed d = Some p \<and> startrow p \<le> endrow p \<and> startcol p \<le> endcol p)) \<and>
   (\<exists>d p. newGoDiagram ''$$\<newline>$$ X'' defaultFontSize = Inr d \<and> parsed d = Some p \<and>
        endcol p < startcol p \<and> diagramOf d = None)"
proof -
  obtain d1 where d1: "newGoDiagram ''$$\<newline>$$ +--+\<newline>$$ |..|'' defaultFontSize = Inr d1"
    using constructor_total by blast
  have "case newGoDiagram ''$$\<newline>$$ +--+\<newline>$$ |..|'' defaultFontSize of
          Inl e \<Rightarrow> False | Inr d \<Rightarrow> diagramOf d \<noteq> None"
    by code_simp
  then have v1: "diagramOf d1 \<noteq> None" using d1 by simp
  obtain d2 where d2: "newGoDiagram ''$$\<newline>$$ X'' defaultFontSize = Inr d2"
    using constructor_total by blast
  have "case newGoDiagram ''$$\<newline>$$ X'' defaultFontSize of
          Inl e \<Rightarrow> False
        | Inr d \<Rightarrow> (case parsed d of None \<Rightarrow> False | Some p \<Rightarrow> endcol p < startcol p)"
    by code_simp
  then obtain p2 where p2: "parsed d2 = Some p2" "endcol p2 < startcol p2"
    using d2 by (auto split: option.splits)
  from valid_diagram_bounds [OF d1] v1 valid_diagram_bounds [OF d2] p2 d1 d2
  show ?thesis by blast
qed

text \<open>
  Claim C6 (the bottom border is found on the last row: flag 1 and end row retracted when
  the probed token of that row is the border sentinel) fails on the code. For the enclosed
  1x1 board \<^verbatim>\<open>+-+\<close>, \<^verbatim>\<open>| . |\<close>, \<^verbatim>\<open>+-+\<close> the top border is found, but the last element of
  \<^verbatim>\<open>this.rows\<close> is the empty string that the final newline leaves when the body is split, so
  the probe reads \<^verbatim>\<open>undefined\<close>: the flag stays 0, the end row stays 3, and the border line
  \<^verbatim>\<open>%%%\<close> at index 2 is counted as a row of the board (image height 73, not 39).
\<close>

theorem bottom_border_line_not_detected:
  "(case newGoDiagram ''$$Bc\<newline>$$ +-+\<newline>$$ | . |\<newline>$$ +-+'' defaultFontSize of
      Inl e \<Rightarrow> False
    | Inr d \<Rightarrow>
        (case parsed d of
           None \<Rightarrow> False
         | Some p \<Rightarrow>
             rows p = [Compact ''%%%'', Compact ''%.%'', Compact ''%%%'', Compact []] \<and>
             topborder p = 1 \<and> startrow p = 1 \<and>
             bottomborder p = 0 \<and> endrow p = 3 \<and>
             diagram p \<noteq> None \<and> imageHeight p = 73))"
  by code_simp

text \<open>
  Claim C7 (a lowercase letter is drawn as intersection lines, a board-coloured disc and the
  letter, and the cell markup shows the link colour when the letter is a key of the link
  map) fails on the code in its second half: the colour \<^verbatim>\<open>bkColor\<close> chosen from the link map
  is passed to \<^verbatim>\<open>markIntersection\<close>, whose result is dropped. In the diagram of the row \<^verbatim>\<open>.a.\<close>
  under a top border, with the link line \<^verbatim>\<open>[a|u]\<close>, the markup of the cell of \<^verbatim>\<open>a\<close> is the three
  lines, the disc in the board colour and the letter, and it is the same without the link
  line.
\<close>

theorem linked_letter_markup_has_no_link_colour:
  "(case newGoDiagram ''$$\<newline>$$ +---+\<newline>$$ |.a.|\<newline>$$ [a|u]'' defaultFontSize of
      Inl e \<Rightarrow> False
    | Inr d1 \<Rightarrow>
        (case newGoDiagram ''$$\<newline>$$ +---+\<newline>$$ |.a.|'' defaultFontSize of
           Inl e \<Rightarrow> False
         | Inr d2 \<Rightarrow>
             (case (parsed d1, parsed d2) of
                (Some p1, Some p2) \<Rightarrow>
                  diagramOf d1 \<noteq> None \<and>
                  map_sum id (\<lambda>r. rowAt r 2) (getRow (rows p1) 1) = Inr (Some ''a'') \<and>
                  linkmapGet (linkmap d1) (Some ''a'') = Some ''u'' \<and>
                  linkmapGet (linkmap d2) (Some ''a'') = None \<and>
                  cellMarkup d1 p1 1 2 =
                    drawIntersection p1 (elementX p1 2) (elementY p1 1) black ''U'' @
                    drawStone p1 (elementX p1 2) (elementY p1 1) goban goban @
                    markupText (fontSize d1) (elementX p1 2) (elementY p1 1) black ''a'' \<and>
                  cellMarkup d2 p2 1 2 = cellMarkup d1 p1 1 2
              | _ \<Rightarrow> False)))"
  by code_simp

text \<open>The same for every cell and every two link maps.\<close>

lemma cell_markup_ignores_linkmap:
  "cellSwitch fs lm p evencolor oddcolor xpos ypos ex ey curchar =
   cellSwitch fs lm' p evencolor oddcolor xpos ypos ex ey curchar"
  by (simp add: cellSwitch_def Let_def split: sum.splits)

text \<open>
  Claim C8: a cell whose token is \<^verbatim>\<open>0\<close> adds to the drawing a circle with black outline, filled
  with the colour of the even moves (black when White moves first, white otherwise), and
  then a text element whose content is the label \<^verbatim>\<open>10\<close>, in the colour of the odd moves, set
  off by a full cell width as for a number of two digits. Only the label changes: the cell
  is classified, and its stone coloured, as the even move \<^verbatim>\<open>0\<close>.
\<close>

theorem zero_token_rendering:
  assumes "getRow (rows p) ypos = Inr r" and "rowAt r xpos = Some ''0''"
  shows \<open>map_sum id svgDiagram (drawCell d p (evenColor p) (oddColor p) ypos xpos img) =
           Inr (svgDiagram img @
                ''<circle cx="'' @ numStr (elementX p xpos) @ ''" cy = "'' @ numStr (elementY p ypos) @
                ''" r = "'' @ numStr (radius p) @ ''" stroke = "rgb(0, 0, 0)" fill = "'' @
                (if firstColor p = ''W'' then ''rgb(0, 0, 0)'' else ''rgb(255, 255, 255)'') @
                ''" />\<newline>  '' @
                ''<text x="'' @ numStr (elementX p xpos - of_int (w (fontSize d))) @
                ''" y="'' @ numStr (elementY p ypos - (of_int (h (fontSize d)) / 2 - 25 / 2)) @
                ''" fill="'' @
                (if firstColor p = ''W'' then ''rgb(255, 255, 255)'' else ''rgb(0, 0, 0)'') @
                ''" class="markup" style="font-size:'' @ intStr (h (fontSize d) * 9 div 10) @
                ''px">10</text>\<newline>'')\<close>
proof -
  have z: "parseIntOf (Some ''0'') = Some 0" by code_simp
  have r: "rem2 (Some 0) = Some 0" by code_simp
  have g: "geq10 (parseInt ''10'')" by code_simp
  have c: "cellSwitch (fontSize d) (linkmap d) p (evenColor p) (oddColor p) xpos ypos
             (elementX p xpos) (elementY p ypos) (Some ''0'') =
           Inr (drawStone p (elementX p xpos) (elementY p ypos) black (evenColor p) @
                markupText (fontSize d) (elementX p xpos) (elementY p ypos) (oddColor p) ''10'')"
    by (simp add: cellSwitch_def z r)
  have s1: "map_sum id svgDiagram (drawCell d p (evenColor p) (oddColor p) ypos xpos img) =
             Inr (svgDiagram img @
                  drawStone p (elementX p xpos) (elementY p ypos) black (evenColor p) @
                  markupText (fontSize d) (elementX p xpos) (elementY p ypos) (oddColor p) ''10'')"
    by (simp add: drawCell_def assms c Let_def split: option.splits)
  show ?thesis
    unfolding s1
    by (simp add: g drawStone_def markupText_def evenColor_def oddColor_def
          black_def white_def markupClass_def Let_def)
qed

theorem zero_token_rendering_witness:
  \<open>(\<exists>d p r. newGoDiagram ''$$W\<newline>$$ +-----+\<newline>$$ | 0 . |'' defaultFontSize = Inr d \<and>
      parsed d = Some p \<and> getRow (rows p) 1 = Inr r \<and> rowAt r 1 = Some ''0'' \<and>
      firstColor p = ''W'' \<and>
      map_sum id svgDiagram
        (drawCell d p (evenColor p) (oddColor p) 1 1
           \<lparr> openSvgTag = [], closeSvgTag = [], background = [], coordinatesSvg = [],
             svgDiagram = [], links = None \<rparr>) =
      Inr (''<circle cx="10.5" cy = "10.5" r = "8.5" stroke = "rgb(0, 0, 0)" fill = "rgb(0, 0, 0)" />\<newline>'' @
        ''  <text x="2.5" y="15" fill="rgb(255, 255, 255)" class="markup" style="font-size:14px">10</text>\<newline>'')) \<and>
   (\<exists>d p r. newGoDiagram ''$$B\<newline>$$ +-----+\<newline>$$ | 0 . |'' defaultFontSize = Inr d \<and>
      parsed d = Some p \<and> getRow (rows p) 1 = Inr r \<and> rowAt r 1 = Some ''0'' \<and>
      firstColor p = ''B'' \<and>
      map_sum id svgDiagram
        (drawCell d p (evenColor p) (oddColor p) 1 1
           \<lparr> openSvgTag = [], closeSvgTag = [], background = [], coordinatesSvg = [],
             svgDiagram = [], links = None \<rparr>) =
      Inr (''<circle cx="10.5" cy = "10.5" r = "8.5" stroke = "rgb(0, 0, 0)" fill = "rgb(255, 255, 255)" />\<newline>'' @
        ''  <text x="2.5" y="15" fill="rgb(0, 0, 0)" class="markup" style="font-size:14px">10</text>\<newline>'') \<and>
      map_sum id xml (fst (createSVG d)) =
      Inr (''<svg width = "55" height = "38">\<newline>'' @
        ''<rect  x="0" y="0" width="55" height = "38" fill = "rgb(242, 176, 109)"/>\<newline>'' @
        ''<circle cx="10.5" cy = "10.5" r = "8.5" stroke = "rgb(0, 0, 0)" fill = "rgb(255, 255, 255)" />\<newline>'' @
        ''  <text x="2.5" y="15" fill="rgb(0, 0, 0)" class="markup" style="font-size:14px">10</text>\<newline>'' @
        ''<line x1="27.5" y1="19" x2="27.5" y2="10.5" stroke="rgb(0, 0, 0)" />\<newline>'' @
        ''  <line x1="19" y1="10.5" x2="27.5" y2="10.5" stroke="rgb(0, 0, 0)" />\<newline>'' @
        ''undefined</svg>\<newline>''))\<close>
proof -
  let ?img = "\<lparr> openSvgTag = [], closeSvgTag = [], background = [], coordinatesSvg = [],
                svgDiagram = [], links = None \<rparr>"
  obtain d1 where d1: "newGoDiagram ''$$W\<newline>$$ +-----+\<newline>$$ | 0 . |'' defaultFontSize = Inr d1"
    using constructor_total by blast
  have \<open>case newGoDiagram ''$$W\<newline>$$ +-----+\<newline>$$ | 0 . |'' defaultFontSize of
          Inl e \<Rightarrow> False
        | Inr d \<Rightarrow>
            (case parsed d of
               None \<Rightarrow> False
             | Some p \<Rightarrow>
                 firstColor p = ''W'' \<and>
                 (case getRow (rows p) 1 of Inl e \<Rightarrow> False | Inr r \<Rightarrow> rowAt r 1 = Some ''0'') \<and>
                 numStr (elementX p 1) = ''10.5'' \<and> numStr (elementY p 1) = ''10.5'' \<and>
                 numStr (radius p) = ''8.5'' \<and>
                 numStr (elementX p 1 - of_int (w (fontSize d))) = ''2.5'' \<and>
                 numStr (elementY p 1 - (of_int (h (fontSize d)) / 2 - 25 / 2)) = ''15'' \<and>
                 intStr (h (fontSize d) * 9 div 10) = ''14'')\<close>
    by code_simp
  then obtain p1 r1 where 1: "parsed d1 = Some p1" "firstColor p1 = ''W''"
      "getRow (rows p1) 1 = Inr r1" "rowAt r1 1 = Some ''0''"
    and n1: "numStr (elementX p1 1) = ''10.5''" "numStr (elementY p1 1) = ''10.5''"
      "numStr (radius p1) = ''8.5''"
      "numStr (elementX p1 1 - of_int (w (fontSize d1))) = ''2.5''"
      "numStr (elementY p1 1 - (of_int (h (fontSize d1)) / 2 - 25 / 2)) = ''15''"
      "intStr (h (fontSize d1) * 9 div 10) = ''14''"
    using d1 by (auto split: option.splits sum.splits)
  have w1: \<open>map_sum id svgDiagram (drawCell d1 p1 (evenColor p1) (oddColor p1) 1 1 ?img) =
      Inr (''<circle cx="10.5" cy = "10.5" r = "8.5" stroke = "rgb(0, 0, 0)" fill = "rgb(0, 0, 0)" />\<newline>'' @
        ''  <text x="2.5" y="15" fill="rgb(255, 255, 255)" class="markup" style="font-size:14px">10</text>\<newline>'')\<close>
    using zero_token_rendering [OF 1(3,4), of d1 ?img] by (simp add: 1(2) n1)
  obtain d2 where d2: "newGoDiagram ''$$B\<newline>$$ +-----+\<newline>$$ | 0 . |'' defaultFontSize = Inr d2"
    using constructor_total by blast
  have \<open>case newGoDiagram ''$$B\<newline>$$ +-----+\<newline>$$ | 0 . |'' defaultFontSize of
          Inl e \<Rightarrow> False
        | Inr d \<Rightarrow>
            map_sum id xml (fst (createSVG d)) =
            Inr (''<svg width = "55" height = "38">\<newline>'' @
        ''<rect  x="0" y="0" width="55" height = "38" fill = "rgb(242, 176, 109)"/>\<newline>'' @
        ''<circle cx="10.5" cy = "10.5" r = "8.5" stroke = "rgb(0, 0, 0)" fill = "rgb(255, 255, 255)" />\<newline>'' @
        ''  <text x="2.5" y="15" fill="rgb(0, 0, 0)" class="markup" style="font-size:14px">10</text>\<newline>'' @
        ''<line x1="27.5" y1="19" x2="27.5" y2="10.5" stroke="rgb(0, 0, 0)" />\<newline>'' @
        ''  <line x1="19" y1="10.5" x2="27.5" y2="10.5" stroke="rgb(0, 0, 0)" />\<newline>'' @
        ''undefined</svg>\<newline>'') \<and>
            (case parsed d of
               None \<Rightarrow> False
             | Some p \<Rightarrow>
                 firstColor p = ''B'' \<and>
                 (case getRow (rows p) 1 of Inl e \<Rightarrow> False | Inr r \<Rightarrow> rowAt r 1 = Some ''0'') \<and>
                 numStr (elementX p 1) = ''10.5'' \<and> numStr (elementY p 1) = ''10.5'' \<and>
                 numStr (radius p) = ''8.5'' \<and>
                 numStr (elementX p 1 - of_int (w (fontSize d))) = ''2.5'' \<and>
                 numStr (elementY p 1 - (of_int (h (fontSize d)) / 2 - 25 / 2)) = ''15'' \<and>
                 intStr (h (fontSize d) * 9 div 10) = ''14'')\<close>
    by code_simp
  then obtain p2 r2 where 2: "parsed d2 = Some p2" "firstColor p2 = ''B''"
      "getRow (rows p2) 1 = Inr r2" "rowAt r2 1 = Some ''0''"
    and x2: \<open>map_sum id xml (fst (createSVG d2)) =
            Inr (''<svg width = "55" height = "38">\<newline>'' @
        ''<rect  x="0" y="0" width="55" height = "38" fill = "rgb(242, 176, 109)"/>\<newline>'' @
        ''<circle cx="10.5" cy = "10.5" r = "8.5" stroke = "rgb(0, 0, 0)" fill = "rgb(255, 255, 255)" />\<newline>'' @
        ''  <text x="2.5" y="15" fill="rgb(0, 0, 0)" class="markup" style="font-size:14px">10</text>\<newline>'' @
        ''<line x1="27.5" y1="19" x2="27.5" y2="10.5" stroke="rgb(0, 0, 0)" />\<newline>'' @
        ''  <line x1="19" y1="10.5" x2="27.5" y2="10.5" stroke="rgb(0, 0, 0)" />\<newline>'' @
        ''undefined</svg>\<newline>'')\<close>
    and n2: "numStr (elementX p2 1) = ''10.5''" "numStr (elementY p2 1) = ''10.5''"
      "numStr (radius p2) = ''8.5''"
      "numStr (elementX p2 1 - of_int (w (fontSize d2))) = ''2.5''"
      "numStr (elementY p2 1 - (of_int (h (fontSize d2)) / 2 - 25 / 2)) = ''15''"
      "intStr (h (fontSize d2) * 9 div 10) = ''14''"
    using d2 by (auto split: option.splits sum.splits)
  have w2: \<open>map_sum id svgDiagram (drawCell d2 p2 (evenColor p2) (oddColor p2) 1 1 ?img) =
      Inr (''<circle cx="10.5" cy = "10.5" r = "8.5" stroke = "rgb(0, 0, 0)" fill = "rgb(255, 255, 255)" />\<newline>'' @
        ''  <text x="2.5" y="15" fill="rgb(0, 0, 0)" class="markup" style="font-size:14px">10</text>\<newline>'')\<close>
    using zero_token_rendering [OF 2(3,4), of d2 ?img] by (simp add: 2(2) n2)
  show ?thesis using d1 1 w1 d2 2 w2 x2 by blast
qed

text \<open>
  Claim C9: on an instance whose \<^verbatim>\<open>this.diagram\<close> is not \<^verbatim>\<open>null\<close>, a call of \<^verbatim>\<open>createSVG\<close> leaves
  the instance as it was, and a second call has the outcome of the first: the same
  \<^verbatim>\<open>xml\<close>, \<^verbatim>\<open>width\<close> and \<^verbatim>\<open>height\<close> (or the same error thrown).
\<close>

theorem createSVG_repeatable:
  assumes "diagramOf d \<noteq> None"
  shows "snd (createSVG d) = d \<and> fst (createSVG (snd (createSVG d))) = fst (createSVG d)"
  using assms by (auto simp: createSVG_def diagramOf_def split: option.splits)

theorem createSVG_repeatable_witness:
  "\<exists>d. newGoDiagram ''$$\<newline>$$ +---+\<newline>$$ |.X.|'' defaultFontSize = Inr d \<and> diagramOf d \<noteq> None \<and>
       \<not> isl (fst (createSVG d)) \<and>
       snd (createSVG d) = d \<and> fst (createSVG (snd (createSVG d))) = fst (createSVG d)"
proof -
  obtain d where d: "newGoDiagram ''$$\<newline>$$ +---+\<newline>$$ |.X.|'' defaultFontSize = Inr d"
    using constructor_total by blast
  have "case newGoDiagram ''$$\<newline>$$ +---+\<newline>$$ |.X.|'' defaultFontSize of
          Inl e \<Rightarrow> False | Inr d \<Rightarrow> diagramOf d \<noteq> None \<and> \<not> isl (fst (createSVG d))"
    by code_simp
  then have v: "diagramOf d \<noteq> None" "\<not> isl (fst (createSVG d))" using d by simp_all
  from createSVG_repeatable [OF v(1)] d v show ?thesis by blast
qed




end
